theory Spec2Isabelle
  imports Complex_Main "HOL-Library.Word" "HOL-Library.Signed_Division"
begin

section \<open>Values exchanged with the daemon\<close>

text \<open>
  The connection reads JSON documents through Qt's \<open>QJsonValue\<close> interface.  A value is one of
  the seven JSON value kinds of Qt (including \<open>Undefined\<close>, the result of looking up a missing
  key).  An object is represented by the list of its entries; \<open>QJsonObject::value\<close> returns the
  first entry of a key.  The numbers of a JSON document are finite doubles; they are modelled by
  the reals they denote.
\<close>

datatype QJsonValue =
    JNull
  | JBool bool
  | JDouble real
  | JString string
  | JArray "QJsonValue list"
  | JObject "(string \<times> QJsonValue) list"
  | JUndefined

type_synonym QJsonObject = "(string \<times> QJsonValue) list"
type_synonym QJsonArray = "QJsonValue list"

definition jvalue :: "QJsonObject \<Rightarrow> string \<Rightarrow> QJsonValue" where
  \<comment> \<open>\<open>QJsonObject::value(key)\<close>\<close>
  "jvalue obj k = (case map_of obj k of Some v \<Rightarrow> v | None \<Rightarrow> JUndefined)"

definition toObject :: "QJsonValue \<Rightarrow> QJsonObject" where
  "toObject v = (case v of JObject obj \<Rightarrow> obj | _ \<Rightarrow> [])"

definition toArray :: "QJsonValue \<Rightarrow> QJsonArray" where
  "toArray v = (case v of JArray xs \<Rightarrow> xs | _ \<Rightarrow> [])"

definition toString :: "QJsonValue \<Rightarrow> string" where
  "toString v = (case v of JString str \<Rightarrow> str | _ \<Rightarrow> [])"

definition toBool :: "bool \<Rightarrow> QJsonValue \<Rightarrow> bool" where
  \<comment> \<open>\<open>toBool(defaultValue)\<close>\<close>
  "toBool dflt v = (case v of JBool b \<Rightarrow> b | _ \<Rightarrow> dflt)"

definition toDouble :: "real \<Rightarrow> QJsonValue \<Rightarrow> real" where
  "toDouble dflt v = (case v of JDouble r \<Rightarrow> r | _ \<Rightarrow> dflt)"

definition toInt :: "int \<Rightarrow> QJsonValue \<Rightarrow> int" where
  \<comment> \<open>\<open>toInt(defaultValue)\<close>: the number when it is integral and fits a 32-bit \<open>int\<close>,
      the default otherwise\<close>
  "toInt dflt v =
     (case v of
        JDouble r \<Rightarrow>
          if of_int \<lfloor>r\<rfloor> = r \<and> - 2147483648 \<le> \<lfloor>r\<rfloor> \<and> \<lfloor>r\<rfloor> \<le> 2147483647 then \<lfloor>r\<rfloor> else dflt
      | _ \<Rightarrow> dflt)"

text \<open>
  The result of a computation on doubles is a finite number, an infinity or not-a-number.
  Dividing a finite number by zero gives an infinity, and dividing zero by zero gives
  not-a-number.  Finite results are the exact results: rounding is not part of the model.
\<close>

datatype double = Double real | PlusInfinity | MinusInfinity | NotANumber

definition double_divide :: "real \<Rightarrow> real \<Rightarrow> double" where
  \<comment> \<open>the quotient of two finite doubles\<close>
  "double_divide x y =
     (if y \<noteq> 0 then Double (x / y)
      else if x = 0 then NotANumber
      else if 0 < x then PlusInfinity
      else MinusInfinity)"

definition int32 :: "int \<Rightarrow> int" where
  \<comment> \<open>the value of a 32-bit \<open>int\<close> after wrap-around\<close>
  "int32 k = sint (word_of_int k :: 32 word)"

text \<open>
  \<open>ChronoUtilities::DateTime\<close> counts ticks in an unsigned integer; the null time is zero
  ticks, and times are compared by their ticks.  A tick is 100 nanoseconds.
\<close>

type_synonym DateTime = nat

definition isNull :: "DateTime \<Rightarrow> bool" where
  "isNull t = (t = 0)"

definition totalSeconds :: "DateTime \<Rightarrow> DateTime \<Rightarrow> real" where
  \<comment> \<open>\<open>(a - b).totalSeconds()\<close>\<close>
  "totalSeconds a b = (real_of_int (int a - int b)) / 10000000"

section \<open>Entity model\<close>

text \<open>
  Modelled from the spec: the declarations of the status enumerations and of the directory and
  device records (the headers of the connector are not among the sources).  The fields are the
  ones the connection reads and writes.
\<close>

datatype SyncthingStatus =
    Status_Disconnected
  | Status_Reconnecting
  | Status_Idle
  | Status_Scanning
  | Status_Synchronizing
  | Status_Paused
  | Status_BeingDestroyed

datatype SyncthingDirStatus =
    DirStatus_Unknown
  | DirStatus_Idle
  | DirStatus_Unshared
  | DirStatus_Scanning
  | DirStatus_Synchronizing
  | DirStatus_OutOfSync

datatype SyncthingDevStatus =
    DevStatus_Unknown
  | DevStatus_Disconnected
  | DevStatus_OwnDevice
  | DevStatus_Idle
  | DevStatus_Synchronizing
  | DevStatus_OutOfSync
  | DevStatus_Rejected

datatype SyncthingErrorCategory = OverallConnection | SpecificRequest | Parsing

record SyncthingDirError =
  err_message :: string
  err_path :: string

record SyncthingItemDownloadProgress =
  item_relativePath :: string
  item_blocksAlreadyDownloaded :: int
  item_totalNumberOfBlocks :: int

record SyncthingDir =
  dir_id :: string
  dir_label :: string
  dir_path :: string
  dir_devices :: "string list"
  dir_readOnly :: bool
  dir_ignorePermissions :: bool
  dir_autoNormalize :: bool
  dir_rescanInterval :: int
  dir_minDiskFreePercentage :: int
  dir_status :: SyncthingDirStatus
  dir_lastStatusUpdate :: DateTime
  dir_progressPercentage :: int
  dir_progressRate :: int
  dir_errors :: "SyncthingDirError list"
  dir_previousErrors :: "SyncthingDirError list"
  dir_globalBytes :: int
  dir_globalDeleted :: int
  dir_globalFiles :: int
  dir_localBytes :: int
  dir_localDeleted :: int
  dir_localFiles :: int
  dir_neededByted :: int
  dir_neededFiles :: int
  dir_lastScanTime :: DateTime
  dir_lastFileTime :: DateTime
  dir_lastFileName :: string
  dir_lastFileDeleted :: bool
  dir_downloadingItems :: "SyncthingItemDownloadProgress list"
  dir_blocksAlreadyDownloaded :: int
  dir_blocksToBeDownloaded :: int
  dir_downloadPercentage :: nat
  dir_downloadLabel :: string

record SyncthingDev =
  dev_id :: string
  dev_name :: string
  dev_addresses :: "string list"
  dev_compression :: string
  dev_certName :: string
  dev_introducer :: bool
  dev_status :: SyncthingDevStatus
  dev_paused :: bool
  dev_totalIncomingTraffic :: "64 word"
  dev_totalOutgoingTraffic :: "64 word"
  dev_connectionAddress :: string
  dev_connectionType :: string
  dev_clientVersion :: string
  dev_lastSeen :: DateTime

section \<open>Connection state\<close>

text \<open>
  Signals emitted by the connection are appended to a log, in emission order.  Signals that carry
  a directory or device carry its row here.
\<close>

datatype Signal =
    Sig_error string SyncthingErrorCategory
  | Sig_newConfig QJsonObject
  | Sig_newDirs
  | Sig_newDevices
  | Sig_newEvents QJsonArray
  | Sig_dirStatusChanged nat
  | Sig_devStatusChanged nat
  | Sig_downloadProgressChanged
  | Sig_newNotification DateTime string
  | Sig_statusChanged SyncthingStatus
  | Sig_configDirChanged string
  | Sig_myIdChanged string
  | Sig_trafficChanged "64 word" "64 word"

datatype Slot = Slot_requestConnections | Slot_requestDeviceStatistics | Slot_requestErrors

record SyncthingConnection =
  m_syncthingUrl :: string
  m_apiKey :: string
  m_status :: SyncthingStatus
  m_keepPolling :: bool
  m_reconnecting :: bool
  m_lastEventId :: int
  m_trafficPollInterval :: int
  m_devStatsPollInterval :: int
  m_autoReconnectTimer_active :: bool
  m_autoReconnectTimer_interval :: int
  m_autoReconnectTries :: int
  m_configDir :: string
  m_myId :: string
  m_totalIncomingTraffic :: "64 word"
  m_totalOutgoingTraffic :: "64 word"
  m_totalIncomingRate :: double
  m_totalOutgoingRate :: double
  m_configReply :: "nat option"
  m_statusReply :: "nat option"
  m_connectionsReply :: "nat option"
  m_errorsReply :: "nat option"
  m_eventsReply :: "nat option"
  m_unreadNotifications :: bool
  m_hasConfig :: bool
  m_hasStatus :: bool
  m_dirs :: "SyncthingDir list"
  m_devs :: "SyncthingDev list"
  m_syncedDirs :: "nat list"
  m_completedDirs :: "nat list"
  m_lastConnectionsUpdate :: DateTime
  m_lastFileTime :: DateTime
  m_lastErrorTime :: DateTime
  m_lastFileName :: string
  m_lastFileDeleted :: bool
  emitted :: "Signal list"
  requests :: "(string \<times> (string \<times> string) list) list"
  singleShots :: "(int \<times> Slot) list"
  nextReply :: nat

text \<open>
  \<open>emitted\<close> is the log of signals, \<open>requests\<close> the log of HTTP requests handed to the network
  access manager (path and query), \<open>singleShots\<close> the single-shot timers started, and
  \<open>nextReply\<close> the identity of the next reply object.  A reply pointer is the identity of the
  reply, \<open>None\<close> for the null pointer.  The vectors of directory pointers \<open>m_syncedDirs\<close> and
  \<open>m_completedDirs\<close> hold rows of \<open>m_dirs\<close>.
\<close>

definition emit :: "Signal \<Rightarrow> SyncthingConnection \<Rightarrow> SyncthingConnection" where
  "emit sig s = s\<lparr>emitted := emitted s @ [sig]\<rparr>"

section \<open>Aggregate status\<close>

fun setStatus_dirs ::
  "SyncthingDir list \<Rightarrow> nat \<Rightarrow> nat list \<times> bool \<times> bool \<Rightarrow> nat list \<times> bool \<times> bool" where
  "setStatus_dirs [] row acc = acc"
| "setStatus_dirs (dir # dirs) row (synced, scanning, synchronizing) =
     (if dir_status dir = DirStatus_Synchronizing then
        setStatus_dirs dirs (Suc row)
          ((if row \<notin> set synced then synced @ [row] else synced), scanning, True)
      else if dir_status dir = DirStatus_Scanning then
        setStatus_dirs dirs (Suc row) (synced, True, synchronizing)
      else setStatus_dirs dirs (Suc row) (synced, scanning, synchronizing))"

fun setStatus_devs :: "SyncthingDev list \<Rightarrow> bool" where
  "setStatus_devs [] = False"
| "setStatus_devs (dev # devs) = (if dev_paused dev then True else setStatus_devs devs)"

definition setStatus :: "SyncthingStatus \<Rightarrow> SyncthingConnection \<Rightarrow> SyncthingConnection" where
  "setStatus status s =
     (if m_status s = Status_BeingDestroyed then s
      else
        let (status', s') =
          (if status = Status_Disconnected \<or> status = Status_Reconnecting then
             (status, s\<lparr>m_syncedDirs := []\<rparr>)
           else
             let s0 = s\<lparr>m_autoReconnectTries := 0\<rparr>;
                 (synced, scanning, synchronizing) =
                    setStatus_dirs (m_dirs s0) 0 (m_syncedDirs s0, False, False);
                 s1 = s0\<lparr>m_syncedDirs := synced\<rparr>;
                 (st, s2) =
                   (if synchronizing then (Status_Synchronizing, s1)
                    else if scanning then (Status_Scanning, s1)
                    else if setStatus_devs (m_devs s1) then
                      (Status_Paused, s1\<lparr>m_syncedDirs := []\<rparr>)
                    else (Status_Idle, s1));
                 s3 = (if st \<noteq> Status_Synchronizing then
                         s2\<lparr>m_completedDirs := m_syncedDirs s2, m_syncedDirs := []\<rparr>
                       else s2)
             in (st, s3))
        in if m_status s' \<noteq> status' then
             emit (Sig_statusChanged status') (s'\<lparr>m_status := status'\<rparr>)
           else s')"

section \<open>Library functions and missing helpers\<close>

text \<open>
  The handlers call functions whose code is not among the sources: the ISO date parsers of the
  date/time library (which throw \<open>ConversionException\<close>, here \<open>None\<close>), the two overloads of
  \<open>SyncthingDir::assignStatus\<close> (which return whether the status changed), the constructor of a
  per-item download progress record, and the formatter of data sizes with the block size it is
  applied to.  The conversion of a double to an unsigned 64-bit integer is not defined by the
  language when the truncated number is negative or does not fit; what it yields then is left
  to \<open>uint64OutOfRange\<close>.  All of these are parameters of the model: every property below
  holds for all of them.
\<close>

record Externals =
  fromIsoStringLocal :: "string \<Rightarrow> DateTime option"
  fromIsoStringGmt :: "string \<Rightarrow> DateTime option"
  assignStatusStr :: "string \<Rightarrow> DateTime \<Rightarrow> SyncthingDir \<Rightarrow> bool \<times> SyncthingDir"
  assignStatus :: "SyncthingDirStatus \<Rightarrow> DateTime \<Rightarrow> SyncthingDir \<Rightarrow> bool \<times> SyncthingDir"
  newItemDownloadProgress :: "string \<Rightarrow> string \<Rightarrow> QJsonObject \<Rightarrow> SyncthingItemDownloadProgress"
  dataSizeToString :: "64 word \<Rightarrow> string"
  syncthingBlockSize :: "64 word"
  uint64OutOfRange :: "real \<Rightarrow> 64 word"

definition toUInt64 :: "Externals \<Rightarrow> real \<Rightarrow> 64 word" where
  \<comment> \<open>\<open>static_cast<uint64>(double)\<close>: the fractional part is discarded\<close>
  "toUInt64 X r =
     (if - 1 < r \<and> r < 18446744073709551616 then word_of_int (if r < 0 then 0 else \<lfloor>r\<rfloor>)
      else uint64OutOfRange X r)"

fun digits :: "nat \<Rightarrow> string" where
  "digits n = (if n < 10 then [char_of (48 + n)] else digits (n div 10) @ [char_of (48 + n mod 10)])"

declare digits.simps [simp del]

definition number :: "int \<Rightarrow> string" where
  \<comment> \<open>\<open>QString::number\<close>\<close>
  "number k = (if k < 0 then CHR ''-'' # digits (nat (- k)) else digits (nat k))"

text \<open>
  Modelled from the spec: \<open>isConnected\<close> (declared in the missing header): the connection counts
  as connected in every status other than Disconnected and Reconnecting.
\<close>

definition isConnected :: "SyncthingConnection \<Rightarrow> bool" where
  "isConnected s = (m_status s \<noteq> Status_Disconnected \<and> m_status s \<noteq> Status_Reconnecting)"

text \<open>
  Modelled from the spec: the constructors of a directory and of a device record from a bare id
  (declared in the missing headers); every other field has its default value.
\<close>

definition newSyncthingDir :: "string \<Rightarrow> SyncthingDir" where
  "newSyncthingDir dirId =
     \<lparr>dir_id = dirId, dir_label = [], dir_path = [], dir_devices = [], dir_readOnly = False,
      dir_ignorePermissions = False, dir_autoNormalize = False, dir_rescanInterval = 0,
      dir_minDiskFreePercentage = 0, dir_status = DirStatus_Idle, dir_lastStatusUpdate = 0,
      dir_progressPercentage = 0, dir_progressRate = 0, dir_errors = [], dir_previousErrors = [],
      dir_globalBytes = 0, dir_globalDeleted = 0, dir_globalFiles = 0, dir_localBytes = 0,
      dir_localDeleted = 0, dir_localFiles = 0, dir_neededByted = 0, dir_neededFiles = 0,
      dir_lastScanTime = 0, dir_lastFileTime = 0, dir_lastFileName = [],
      dir_lastFileDeleted = False, dir_downloadingItems = [], dir_blocksAlreadyDownloaded = 0,
      dir_blocksToBeDownloaded = 0, dir_downloadPercentage = 0, dir_downloadLabel = []\<rparr>"

definition newSyncthingDev :: "string \<Rightarrow> SyncthingDev" where
  "newSyncthingDev devId =
     \<lparr>dev_id = devId, dev_name = [], dev_addresses = [], dev_compression = [], dev_certName = [],
      dev_introducer = False, dev_status = DevStatus_Unknown, dev_paused = False,
      dev_totalIncomingTraffic = 0, dev_totalOutgoingTraffic = 0, dev_connectionAddress = [],
      dev_connectionType = [], dev_clientVersion = [], dev_lastSeen = 0\<rparr>"

text \<open>
  A record that has been moved out of keeps its plain members; its strings, string lists and
  vectors are left empty (the state Qt's and the standard library's move constructors leave).
\<close>

definition movedFromDir :: "SyncthingDir \<Rightarrow> SyncthingDir" where
  "movedFromDir d =
     d\<lparr>dir_id := [], dir_label := [], dir_path := [], dir_devices := [], dir_errors := [],
       dir_previousErrors := [], dir_lastFileName := [], dir_downloadingItems := [],
       dir_downloadLabel := []\<rparr>"

definition movedFromDev :: "SyncthingDev \<Rightarrow> SyncthingDev" where
  "movedFromDev d =
     d\<lparr>dev_id := [], dev_name := [], dev_addresses := [], dev_compression := [],
       dev_certName := [], dev_connectionAddress := [], dev_connectionType := [],
       dev_clientVersion := []\<rparr>"

section \<open>Requests\<close>

datatype NetworkError = NoError | OperationCanceledError | TimeoutError | OtherNetworkError

datatype QJsonDocument = JsonParseError string | JsonDocument QJsonValue

text \<open>
  A finished reply: its identity, its error code and error string, and the result of
  \<open>QJsonDocument::fromJson\<close> on its body (the parse error with its error string, or the
  document).
\<close>

record QNetworkReply =
  reply_id :: nat
  reply_error :: NetworkError
  reply_errorString :: string
  reply_document :: QJsonDocument

definition requestData ::
  "string \<Rightarrow> (string \<times> string) list \<Rightarrow> SyncthingConnection \<Rightarrow> nat \<times> SyncthingConnection" where
  "requestData path query s =
     (nextReply s, s\<lparr>requests := requests s @ [(path, query)], nextReply := Suc (nextReply s)\<rparr>)"

definition requestConfig :: "SyncthingConnection \<Rightarrow> SyncthingConnection" where
  "requestConfig s = (let (r, s') = requestData ''system/config'' [] s in s'\<lparr>m_configReply := Some r\<rparr>)"

definition requestStatus :: "SyncthingConnection \<Rightarrow> SyncthingConnection" where
  "requestStatus s = (let (r, s') = requestData ''system/status'' [] s in s'\<lparr>m_statusReply := Some r\<rparr>)"

definition requestConnections :: "SyncthingConnection \<Rightarrow> SyncthingConnection" where
  "requestConnections s =
     (let (r, s') = requestData ''system/connections'' [] s in s'\<lparr>m_connectionsReply := Some r\<rparr>)"

definition requestErrors :: "SyncthingConnection \<Rightarrow> SyncthingConnection" where
  "requestErrors s = (let (r, s') = requestData ''system/error'' [] s in s'\<lparr>m_errorsReply := Some r\<rparr>)"

definition requestDirStatistics :: "SyncthingConnection \<Rightarrow> SyncthingConnection" where
  "requestDirStatistics s = snd (requestData ''stats/folder'' [] s)"

definition requestDeviceStatistics :: "SyncthingConnection \<Rightarrow> SyncthingConnection" where
  "requestDeviceStatistics s = snd (requestData ''stats/device'' [] s)"

definition requestEvents :: "SyncthingConnection \<Rightarrow> SyncthingConnection" where
  "requestEvents s =
     (let query = (if m_lastEventId s \<noteq> 0 then [(''since'', number (m_lastEventId s))] else []);
          (r, s') = requestData ''events'' query s
      in s'\<lparr>m_eventsReply := Some r\<rparr>)"

section \<open>Connecting\<close>

definition connect :: "SyncthingConnection \<Rightarrow> SyncthingConnection" where
  "connect s =
     (let s1 = s\<lparr>m_autoReconnectTimer_active := False, m_autoReconnectTries := 0\<rparr>
      in if \<not> isConnected s1 then
           let s2 = s1\<lparr>m_reconnecting := False, m_hasConfig := False, m_hasStatus := False\<rparr>
           in if m_apiKey s2 = [] \<or> m_syncthingUrl s2 = [] then
                emit (Sig_error ''Connection configuration is insufficient.'' OverallConnection) s2
              else (requestStatus (requestConfig s2))\<lparr>m_keepPolling := True\<rparr>
         else s1)"

definition continueReconnecting :: "SyncthingConnection \<Rightarrow> SyncthingConnection" where
  "continueReconnecting s =
     (let s1 = setStatus Status_Reconnecting (emit (Sig_newConfig []) s);
          s2 = s1\<lparr>m_keepPolling := True, m_reconnecting := False, m_lastEventId := 0,
                  m_configDir := [], m_myId := [], m_totalIncomingTraffic := 0,
                  m_totalOutgoingTraffic := 0, m_totalIncomingRate := Double 0,
                  m_totalOutgoingRate := Double 0,
                  m_unreadNotifications := False, m_hasConfig := False, m_hasStatus := False,
                  m_dirs := [], m_devs := [], m_lastConnectionsUpdate := 0, m_lastFileTime := 0,
                  m_lastErrorTime := 0, m_lastFileName := [], m_lastFileDeleted := False\<rparr>
      in if m_apiKey s2 = [] \<or> m_syncthingUrl s2 = [] then
           emit (Sig_error ''Connection configuration is insufficient.'' OverallConnection) s2
         else requestStatus (requestConfig s2))"

definition autoReconnect :: "SyncthingConnection \<Rightarrow> SyncthingConnection" where
  "autoReconnect s = (let tmp = m_autoReconnectTries s in (connect s)\<lparr>m_autoReconnectTries := tmp + 1\<rparr>)"

definition continueConnecting :: "SyncthingConnection \<Rightarrow> SyncthingConnection" where
  "continueConnecting s =
     (if m_keepPolling s \<and> m_hasConfig s \<and> m_hasStatus s then
        requestEvents
          ((requestErrors (requestDeviceStatistics (requestDirStatistics (requestConnections s))))
             \<lparr>m_lastEventId := 0\<rparr>)
      else s)"

definition emitNotification :: "DateTime \<Rightarrow> string \<Rightarrow> SyncthingConnection \<Rightarrow> SyncthingConnection" where
  "emitNotification when message s =
     (let s1 = s\<lparr>m_unreadNotifications := True\<rparr>;
          s2 = setStatus (m_status s1) s1
      in emit (Sig_newNotification when message) s2)"

section \<open>Looking up and recycling entities\<close>

fun findDirInfo_from :: "string \<Rightarrow> SyncthingDir list \<Rightarrow> nat \<Rightarrow> nat option" where
  "findDirInfo_from dirId [] row = None"
| "findDirInfo_from dirId (d # ds) row =
     (if dir_id d = dirId then Some row else findDirInfo_from dirId ds (Suc row))"

definition findDirInfo :: "string \<Rightarrow> SyncthingConnection \<Rightarrow> nat option" where
  \<comment> \<open>the row of the directory, which stands for the pointer to it; \<open>None\<close> is the null pointer\<close>
  "findDirInfo dirId s = findDirInfo_from dirId (m_dirs s) 0"

fun findDevInfo_from :: "string \<Rightarrow> SyncthingDev list \<Rightarrow> nat \<Rightarrow> nat option" where
  "findDevInfo_from devId [] row = None"
| "findDevInfo_from devId (d # ds) row =
     (if dev_id d = devId then Some row else findDevInfo_from devId ds (Suc row))"

definition findDevInfo :: "string \<Rightarrow> SyncthingConnection \<Rightarrow> nat option" where
  "findDevInfo devId s = findDevInfo_from devId (m_devs s) 0"

definition addDirInfo ::
  "SyncthingDir list \<Rightarrow> string \<Rightarrow> SyncthingConnection \<Rightarrow> (SyncthingDir list \<times> SyncthingConnection) option" where
  \<comment> \<open>the result is the extended vector, whose last element the returned pointer refers to;
      \<open>None\<close> is the null pointer\<close>
  "addDirInfo dirs dirId s =
     (if dirId = [] then None
      else case findDirInfo dirId s of
             Some row \<Rightarrow>
               Some (dirs @ [m_dirs s ! row],
                     s\<lparr>m_dirs := (m_dirs s)[row := movedFromDir (m_dirs s ! row)]\<rparr>)
           | None \<Rightarrow> Some (dirs @ [newSyncthingDir dirId], s))"

definition addDevInfo ::
  "SyncthingDev list \<Rightarrow> string \<Rightarrow> SyncthingConnection \<Rightarrow> (SyncthingDev list \<times> SyncthingConnection) option" where
  "addDevInfo devs devId s =
     (if devId = [] then None
      else case findDevInfo devId s of
             Some row \<Rightarrow>
               Some (devs @ [m_devs s ! row],
                     s\<lparr>m_devs := (m_devs s)[row := movedFromDev (m_devs s ! row)]\<rparr>)
           | None \<Rightarrow> Some (devs @ [newSyncthingDev devId], s))"

definition modifyBack :: "('a \<Rightarrow> 'a) \<Rightarrow> 'a list \<Rightarrow> 'a list" where
  \<comment> \<open>assignments through a pointer to the last element of a vector\<close>
  "modifyBack f xs = (if xs = [] then [] else butlast xs @ [f (last xs)])"

section \<open>Reading the configuration\<close>

definition takeReply ::
  "(SyncthingConnection \<Rightarrow> nat option) \<Rightarrow> (SyncthingConnection \<Rightarrow> SyncthingConnection) \<Rightarrow>
   QNetworkReply \<Rightarrow> SyncthingConnection \<Rightarrow> SyncthingConnection" where
  \<comment> \<open>\<open>if(reply == m_xReply) m_xReply = nullptr\<close>, given the pointer and its reset\<close>
  "takeReply pending reset reply s = (if pending s = Some (reply_id reply) then reset s else s)"

definition startAutoReconnectTimer :: "SyncthingConnection \<Rightarrow> SyncthingConnection" where
  \<comment> \<open>\<open>if(m_autoReconnectTimer.interval()) m_autoReconnectTimer.start()\<close>\<close>
  "startAutoReconnectTimer s =
     (if m_autoReconnectTimer_interval s \<noteq> 0 then s\<lparr>m_autoReconnectTimer_active := True\<rparr> else s)"

definition readDirs_item :: "QJsonObject \<Rightarrow> SyncthingDir \<Rightarrow> SyncthingDir" where
  "readDirs_item dirObj dirItem =
     dirItem\<lparr>dir_label := toString (jvalue dirObj ''label''),
             dir_path := toString (jvalue dirObj ''path''),
             dir_devices :=
               filter (\<lambda>devId. devId \<noteq> [])
                 (map (\<lambda>dev. toString (jvalue (toObject dev) ''deviceID''))
                    (toArray (jvalue dirObj ''devices''))),
             dir_readOnly := toBool False (jvalue dirObj ''readOnly''),
             dir_rescanInterval := toInt (- 1) (jvalue dirObj ''rescanIntervalS''),
             dir_ignorePermissions := toBool False (jvalue dirObj ''ignorePerms''),
             dir_autoNormalize := toBool False (jvalue dirObj ''autoNormalize''),
             dir_minDiskFreePercentage := toInt (- 1) (jvalue dirObj ''minDiskFreePct'')\<rparr>"

fun readDirs_loop ::
  "QJsonArray \<Rightarrow> SyncthingDir list \<Rightarrow> SyncthingConnection \<Rightarrow> SyncthingDir list \<times> SyncthingConnection" where
  "readDirs_loop [] newDirs s = (newDirs, s)"
| "readDirs_loop (dirVal # dirs) newDirs s =
     (let dirObj = toObject dirVal
      in case addDirInfo newDirs (toString (jvalue dirObj ''id'')) s of
           Some (newDirs', s') \<Rightarrow> readDirs_loop dirs (modifyBack (readDirs_item dirObj) newDirs') s'
         | None \<Rightarrow> readDirs_loop dirs newDirs s)"

definition readDirs :: "QJsonArray \<Rightarrow> SyncthingConnection \<Rightarrow> SyncthingConnection" where
  "readDirs dirs s =
     (let (newDirs, s') = readDirs_loop dirs [] s
      in emit Sig_newDirs (s'\<lparr>m_dirs := newDirs\<rparr>))"

definition readDevs_item :: "string \<Rightarrow> QJsonObject \<Rightarrow> SyncthingDev \<Rightarrow> SyncthingDev" where
  "readDevs_item myId devObj devItem =
     devItem\<lparr>dev_name := toString (jvalue devObj ''name''),
             dev_addresses := map toString (toArray (jvalue devObj ''addresses'')),
             dev_compression := toString (jvalue devObj ''compression''),
             dev_certName := toString (jvalue devObj ''certName''),
             dev_introducer := toBool False (jvalue devObj ''introducer''),
             dev_status :=
               (if dev_id devItem = myId then DevStatus_OwnDevice else DevStatus_Unknown)\<rparr>"

fun readDevs_loop ::
  "QJsonArray \<Rightarrow> SyncthingDev list \<Rightarrow> SyncthingConnection \<Rightarrow> SyncthingDev list \<times> SyncthingConnection" where
  "readDevs_loop [] newDevs s = (newDevs, s)"
| "readDevs_loop (devVal # devs) newDevs s =
     (let devObj = toObject devVal
      in case addDevInfo newDevs (toString (jvalue devObj ''deviceID'')) s of
           Some (newDevs', s') \<Rightarrow>
             readDevs_loop devs (modifyBack (readDevs_item (m_myId s') devObj) newDevs') s'
         | None \<Rightarrow> readDevs_loop devs newDevs s)"

definition readDevs :: "QJsonArray \<Rightarrow> SyncthingConnection \<Rightarrow> SyncthingConnection" where
  "readDevs devs s =
     (let (newDevs, s') = readDevs_loop devs [] s
      in emit Sig_newDevices (s'\<lparr>m_devs := newDevs\<rparr>))"

definition readConfig :: "QNetworkReply \<Rightarrow> SyncthingConnection \<Rightarrow> SyncthingConnection" where
  "readConfig reply s =
     (let s1 = takeReply m_configReply (\<lambda>s. s\<lparr>m_configReply := None\<rparr>) reply s
      in case reply_error reply of
           NoError \<Rightarrow>
             (case reply_document reply of
                JsonDocument doc \<Rightarrow>
                  let replyObj = toObject doc;
                      s2 = emit (Sig_newConfig replyObj) s1;
                      s3 = readDirs (toArray (jvalue replyObj ''folders'')) s2;
                      s4 = readDevs (toArray (jvalue replyObj ''devices'')) s3;
                      s5 = s4\<lparr>m_hasConfig := True\<rparr>
                  in if \<not> isConnected s5 then continueConnecting s5 else s5
              | JsonParseError errorString \<Rightarrow>
                  emit (Sig_error (''Unable to parse Syncthing config: '' @ errorString) Parsing) s1)
         | OperationCanceledError \<Rightarrow> s1
         | _ \<Rightarrow>
             startAutoReconnectTimer
               (setStatus Status_Disconnected
                  (emit (Sig_error (''Unable to request Syncthing config: '' @ reply_errorString reply)
                           OverallConnection) s1)))"

section \<open>Polling status, connections, statistics and errors\<close>

definition readStatus :: "QNetworkReply \<Rightarrow> SyncthingConnection \<Rightarrow> SyncthingConnection" where
  "readStatus reply s =
     (let s1 = takeReply m_statusReply (\<lambda>s. s\<lparr>m_statusReply := None\<rparr>) reply s
      in case reply_error reply of
           NoError \<Rightarrow>
             (case reply_document reply of
                JsonDocument doc \<Rightarrow>
                  let replyObj = toObject doc;
                      myId = toString (jvalue replyObj ''myID'');
                      s2 = (if myId \<noteq> m_myId s1 then
                              let s' = emit (Sig_myIdChanged myId) (s1\<lparr>m_myId := myId\<rparr>)
                              in case findDevInfo (m_myId s') s' of
                                   Some index \<Rightarrow>
                                     emit (Sig_devStatusChanged index)
                                       (s'\<lparr>m_devs := (m_devs s')
                                            [index := (m_devs s' ! index)\<lparr>dev_status := DevStatus_OwnDevice\<rparr>]\<rparr>)
                                 | None \<Rightarrow> s'
                            else s1)
                  in continueConnecting (s2\<lparr>m_hasStatus := True\<rparr>)
              | JsonParseError errorString \<Rightarrow>
                  emit (Sig_error (''Unable to parse Syncthing status: '' @ errorString) Parsing) s1)
         | OperationCanceledError \<Rightarrow> s1
         | _ \<Rightarrow>
             emit (Sig_error (''Unable to request Syncthing status: '' @ reply_errorString reply)
                     OverallConnection) s1)"

definition readConnections_dev :: "Externals \<Rightarrow> QJsonObject \<Rightarrow> SyncthingDev \<Rightarrow> SyncthingDev" where
  "readConnections_dev X connectionObj dev =
     (let dev1 =
        (case dev_status dev of
           DevStatus_OwnDevice \<Rightarrow> dev
         | DevStatus_Disconnected \<Rightarrow>
             (if toBool False (jvalue connectionObj ''connected'') then dev\<lparr>dev_status := DevStatus_Idle\<rparr>
              else dev\<lparr>dev_status := DevStatus_Disconnected\<rparr>)
         | DevStatus_Unknown \<Rightarrow>
             (if toBool False (jvalue connectionObj ''connected'') then dev\<lparr>dev_status := DevStatus_Idle\<rparr>
              else dev\<lparr>dev_status := DevStatus_Disconnected\<rparr>)
         | _ \<Rightarrow>
             (if \<not> toBool False (jvalue connectionObj ''connected'') then
                dev\<lparr>dev_status := DevStatus_Disconnected\<rparr>
              else dev))
      in dev1\<lparr>dev_paused := toBool False (jvalue connectionObj ''paused''),
              dev_totalIncomingTraffic := toUInt64 X (toDouble 0 (jvalue connectionObj ''inBytesTotal'')),
              dev_totalOutgoingTraffic := toUInt64 X (toDouble 0 (jvalue connectionObj ''outBytesTotal'')),
              dev_connectionAddress := toString (jvalue connectionObj ''address''),
              dev_connectionType := toString (jvalue connectionObj ''type''),
              dev_clientVersion := toString (jvalue connectionObj ''clientVersion'')\<rparr>)"

definition readConnections_step ::
  "Externals \<Rightarrow> QJsonObject \<Rightarrow> nat \<Rightarrow> SyncthingConnection \<Rightarrow> SyncthingConnection" where
  \<comment> \<open>the body of the loop over \<open>m_devs\<close>, for the device in row \<open>index\<close>\<close>
  "readConnections_step X connectionsObj index s =
     (let dev = m_devs s ! index;
          connectionObj = toObject (jvalue connectionsObj (dev_id dev))
      in if connectionObj \<noteq> [] then
           emit (Sig_devStatusChanged index)
             (s\<lparr>m_devs := (m_devs s)[index := readConnections_dev X connectionObj dev]\<rparr>)
         else s)"

definition readConnections_traffic ::
  "Externals \<Rightarrow> DateTime \<Rightarrow> QJsonObject \<Rightarrow> SyncthingConnection \<Rightarrow> SyncthingConnection" where
  \<comment> \<open>reading the traffic totals and computing the rates; \<open>gmtNow\<close> is the reading of the clock\<close>
  "readConnections_traffic X gmtNow totalObj s =
     (let totalIncomingTraffic = toUInt64 X (toDouble 0 (jvalue totalObj ''inBytesTotal''));
          totalOutgoingTraffic = toUInt64 X (toDouble 0 (jvalue totalObj ''outBytesTotal''));
          transferTime = totalSeconds gmtNow (m_lastConnectionsUpdate s);
          s1 = (if \<not> isNull (m_lastConnectionsUpdate s) \<and> transferTime \<noteq> 0 then
                  s\<lparr>m_totalIncomingRate :=
                       double_divide
                         (real (unat (totalIncomingTraffic - m_totalIncomingTraffic s)) * 0.008)
                         transferTime,
                     m_totalOutgoingRate :=
                       double_divide
                         (real (unat (totalOutgoingTraffic - m_totalOutgoingTraffic s)) * 0.008)
                         transferTime\<rparr>
                else s\<lparr>m_totalIncomingRate := Double 0, m_totalOutgoingRate := Double 0\<rparr>)
      in emit (Sig_trafficChanged totalIncomingTraffic totalOutgoingTraffic)
           (s1\<lparr>m_totalIncomingTraffic := totalIncomingTraffic,
               m_totalOutgoingTraffic := totalOutgoingTraffic\<rparr>))"

definition readConnections_devices ::
  "Externals \<Rightarrow> QJsonObject \<Rightarrow> SyncthingConnection \<Rightarrow> SyncthingConnection" where
  \<comment> \<open>the loop over \<open>m_devs\<close>\<close>
  "readConnections_devices X connectionsObj s =
     fold (readConnections_step X connectionsObj) [0..<length (m_devs s)] s"

definition readConnections ::
  "Externals \<Rightarrow> DateTime \<Rightarrow> DateTime \<Rightarrow> QNetworkReply \<Rightarrow> SyncthingConnection \<Rightarrow> SyncthingConnection" where
  \<comment> \<open>\<open>gmtNow\<close> and \<open>gmtNow'\<close> are the two readings of the clock, in the order of the calls\<close>
  "readConnections X gmtNow gmtNow' reply s =
     (let s1 = takeReply m_connectionsReply (\<lambda>s. s\<lparr>m_connectionsReply := None\<rparr>) reply s
      in case reply_error reply of
           NoError \<Rightarrow>
             (case reply_document reply of
                JsonDocument doc \<Rightarrow>
                  let replyObj = toObject doc;
                      s3 = readConnections_traffic X gmtNow (toObject (jvalue replyObj ''total'')) s1;
                      s4 = readConnections_devices X (toObject (jvalue replyObj ''connections'')) s3;
                      s5 = s4\<lparr>m_lastConnectionsUpdate := gmtNow'\<rparr>
                  in if m_keepPolling s5 then
                       s5\<lparr>singleShots := singleShots s5 @ [(m_trafficPollInterval s5, Slot_requestConnections)]\<rparr>
                     else s5
              | JsonParseError errorString \<Rightarrow>
                  emit (Sig_error (''Unable to parse connections: '' @ errorString) Parsing) s1)
         | OperationCanceledError \<Rightarrow> s1
         | _ \<Rightarrow>
             emit (Sig_error (''Unable to request connections: '' @ reply_errorString reply)
                     OverallConnection) s1)"

definition readDirStatistics_step ::
  "Externals \<Rightarrow> QJsonObject \<Rightarrow> nat \<Rightarrow> SyncthingConnection \<Rightarrow> SyncthingConnection" where
  "readDirStatistics_step X replyObj index s =
     (let dirInfo = m_dirs s ! index;
          dirObj = toObject (jvalue replyObj (dir_id dirInfo))
      in if dirObj \<noteq> [] then
           let (dirInfo1, mod1) =
                 (case fromIsoStringLocal X (toString (jvalue dirObj ''lastScan'')) of
                    Some t \<Rightarrow> (dirInfo\<lparr>dir_lastScanTime := t\<rparr>, True)
                  | None \<Rightarrow> (dirInfo\<lparr>dir_lastScanTime := 0\<rparr>, False));
               lastFileObj = toObject (jvalue dirObj ''lastFile'');
               (dirInfo2, mod2, s2) =
                 (if lastFileObj \<noteq> [] then
                    let dirInfo' = dirInfo1\<lparr>dir_lastFileName := toString (jvalue lastFileObj ''filename'')\<rparr>
                    in if dir_lastFileName dirInfo' \<noteq> [] then
                         let dirInfo'' =
                               dirInfo'\<lparr>dir_lastFileDeleted := toBool False (jvalue lastFileObj ''deleted'')\<rparr>
                         in case fromIsoStringLocal X (toString (jvalue lastFileObj ''at'')) of
                              Some t \<Rightarrow>
                                (dirInfo''\<lparr>dir_lastFileTime := t\<rparr>, True,
                                 if t > m_lastFileTime s then
                                   s\<lparr>m_lastFileTime := t,
                                     m_lastFileName := dir_lastFileName dirInfo'',
                                     m_lastFileDeleted := dir_lastFileDeleted dirInfo''\<rparr>
                                 else s)
                            | None \<Rightarrow> (dirInfo''\<lparr>dir_lastFileTime := 0\<rparr>, True, s)
                       else (dirInfo', True, s)
                  else (dirInfo1, mod1, s));
               s3 = s2\<lparr>m_dirs := (m_dirs s2)[index := dirInfo2]\<rparr>
           in if mod2 then emit (Sig_dirStatusChanged index) s3 else s3
         else s)"

definition readDirStatistics ::
  "Externals \<Rightarrow> QNetworkReply \<Rightarrow> SyncthingConnection \<Rightarrow> SyncthingConnection" where
  "readDirStatistics X reply s =
     (case reply_error reply of
        NoError \<Rightarrow>
          (case reply_document reply of
             JsonDocument doc \<Rightarrow>
               fold (readDirStatistics_step X (toObject doc)) [0..<length (m_dirs s)] s
           | JsonParseError errorString \<Rightarrow>
               emit (Sig_error (''Unable to parse directory statistics: '' @ errorString) Parsing) s)
      | OperationCanceledError \<Rightarrow> s
      | _ \<Rightarrow>
          emit (Sig_error (''Unable to request directory statistics: '' @ reply_errorString reply)
                  OverallConnection) s)"

definition readDeviceStatistics_step ::
  "Externals \<Rightarrow> QJsonObject \<Rightarrow> nat \<Rightarrow> SyncthingConnection \<Rightarrow> SyncthingConnection" where
  "readDeviceStatistics_step X replyObj index s =
     (let devInfo = m_devs s ! index;
          devObj = toObject (jvalue replyObj (dev_id devInfo))
      in if devObj \<noteq> [] then
           (case fromIsoStringLocal X (toString (jvalue devObj ''lastSeen'')) of
              Some t \<Rightarrow>
                emit (Sig_devStatusChanged index)
                  (s\<lparr>m_devs := (m_devs s)[index := devInfo\<lparr>dev_lastSeen := t\<rparr>]\<rparr>)
            | None \<Rightarrow> s\<lparr>m_devs := (m_devs s)[index := devInfo\<lparr>dev_lastSeen := 0\<rparr>]\<rparr>)
         else s)"

definition readDeviceStatistics ::
  "Externals \<Rightarrow> QNetworkReply \<Rightarrow> SyncthingConnection \<Rightarrow> SyncthingConnection" where
  "readDeviceStatistics X reply s =
     (case reply_error reply of
        NoError \<Rightarrow>
          (case reply_document reply of
             JsonDocument doc \<Rightarrow>
               let s1 = fold (readDeviceStatistics_step X (toObject doc)) [0..<length (m_devs s)] s
               in if m_keepPolling s1 then
                    s1\<lparr>singleShots :=
                         singleShots s1 @ [(m_devStatsPollInterval s1, Slot_requestDeviceStatistics)]\<rparr>
                  else s1
           | JsonParseError errorString \<Rightarrow>
               emit (Sig_error (''Unable to parse device statistics: '' @ errorString) Parsing) s)
      | OperationCanceledError \<Rightarrow> s
      | _ \<Rightarrow>
          emit (Sig_error (''Unable to request device statistics: '' @ reply_errorString reply)
                  OverallConnection) s)"

definition readErrors_step :: "Externals \<Rightarrow> QJsonValue \<Rightarrow> SyncthingConnection \<Rightarrow> SyncthingConnection" where
  "readErrors_step X errorVal s =
     (let errorObj = toObject errorVal
      in if errorObj \<noteq> [] then
           (case fromIsoStringLocal X (toString (jvalue errorObj ''when'')) of
              Some when \<Rightarrow>
                if m_lastErrorTime s < when then
                  emitNotification when (toString (jvalue errorObj ''message''))
                    (s\<lparr>m_lastErrorTime := when\<rparr>)
                else s
            | None \<Rightarrow> s)
         else s)"

definition readErrors ::
  "Externals \<Rightarrow> DateTime \<Rightarrow> QNetworkReply \<Rightarrow> SyncthingConnection \<Rightarrow> SyncthingConnection" where
  \<comment> \<open>\<open>now\<close> is the reading of the clock\<close>
  "readErrors X now reply s =
     (let s1 = takeReply m_errorsReply (\<lambda>s. s\<lparr>m_errorsReply := None\<rparr>) reply s;
          s2 = (if isNull (m_lastErrorTime s1) then s1\<lparr>m_lastErrorTime := now\<rparr> else s1)
      in case reply_error reply of
           NoError \<Rightarrow>
             (let s3 =
                (case reply_document reply of
                   JsonDocument doc \<Rightarrow>
                     fold (readErrors_step X) (toArray (jvalue (toObject doc) ''errors'')) s2
                 | JsonParseError errorString \<Rightarrow>
                     emit (Sig_error (''Unable to parse errors: '' @ errorString) Parsing) s2)
              in if m_keepPolling s3 then
                   s3\<lparr>singleShots := singleShots s3 @ [(30000, Slot_requestErrors)]\<rparr>
                 else s3)
         | OperationCanceledError \<Rightarrow> s2
         | _ \<Rightarrow>
             emit (Sig_error (''Unable to request errors: '' @ reply_errorString reply)
                     OverallConnection) s2)"

section \<open>Event handlers\<close>

definition readStartingEvent :: "QJsonObject \<Rightarrow> SyncthingConnection \<Rightarrow> SyncthingConnection" where
  "readStartingEvent eventData s =
     (let strValue = toString (jvalue eventData ''home'');
          s1 = (if strValue \<noteq> m_configDir s then
                  emit (Sig_configDirChanged strValue) (s\<lparr>m_configDir := strValue\<rparr>)
                else s);
          strValue' = toString (jvalue eventData ''myID'')
      in if strValue' \<noteq> m_myId s1 then
           emit (Sig_configDirChanged strValue') (s1\<lparr>m_myId := strValue'\<rparr>)
         else s1)"

definition readStatusChangedEvent ::
  "Externals \<Rightarrow> DateTime \<Rightarrow> QJsonObject \<Rightarrow> SyncthingConnection \<Rightarrow> SyncthingConnection" where
  "readStatusChangedEvent X eventTime eventData s =
     (let dir = toString (jvalue eventData ''folder'')
      in if dir \<noteq> [] then
           (case findDirInfo dir s of
              Some index \<Rightarrow>
                let (changed, dirInfo) =
                      assignStatusStr X (toString (jvalue eventData ''to'')) eventTime (m_dirs s ! index);
                    s1 = s\<lparr>m_dirs := (m_dirs s)[index := dirInfo]\<rparr>
                in if changed then emit (Sig_dirStatusChanged index) s1 else s1
            | None \<Rightarrow>
                requestConfig
                  (s\<lparr>m_dirs := m_dirs s @
                       [snd (assignStatusStr X (toString (jvalue eventData ''to'')) eventTime
                               (newSyncthingDir dir))]\<rparr>))
         else s)"

definition uint32 :: "int \<Rightarrow> nat" where
  \<comment> \<open>\<open>static_cast<unsigned int>\<close> of an \<open>int\<close>\<close>
  "uint32 k = nat (k mod 4294967296)"

definition readDownloadProgressEvent_item ::
  "Externals \<Rightarrow> string \<times> QJsonValue \<Rightarrow> SyncthingDir \<Rightarrow> SyncthingDir" where
  "readDownloadProgressEvent_item X filePair dirInfo =
     (let itemProgress = newItemDownloadProgress X (dir_path dirInfo) (fst filePair) (toObject (snd filePair))
      in dirInfo\<lparr>dir_downloadingItems := dir_downloadingItems dirInfo @ [itemProgress],
                 dir_blocksAlreadyDownloaded :=
                   int32 (dir_blocksAlreadyDownloaded dirInfo + item_blocksAlreadyDownloaded itemProgress),
                 dir_blocksToBeDownloaded :=
                   int32 (dir_blocksToBeDownloaded dirInfo + item_totalNumberOfBlocks itemProgress)\<rparr>)"

definition readDownloadProgressEvent_dir ::
  "Externals \<Rightarrow> QJsonObject \<Rightarrow> SyncthingDir \<Rightarrow> SyncthingDir" where
  "readDownloadProgressEvent_dir X eventData dirInfo =
     (let dirInfo1 = dirInfo\<lparr>dir_downloadingItems := [], dir_blocksAlreadyDownloaded := 0,
                             dir_blocksToBeDownloaded := 0\<rparr>;
          dirObj = toObject (jvalue eventData (dir_id dirInfo1));
          dirInfo2 = (if dirObj \<noteq> [] then fold (readDownloadProgressEvent_item X) dirObj dirInfo1
                      else dirInfo1);
          dirInfo3 =
            dirInfo2\<lparr>dir_downloadPercentage :=
              (if dir_blocksAlreadyDownloaded dirInfo2 > 0 \<and> dir_blocksToBeDownloaded dirInfo2 > 0 then
                 (uint32 (dir_blocksAlreadyDownloaded dirInfo2) * 100 mod 4294967296)
                   div uint32 (dir_blocksToBeDownloaded dirInfo2)
               else 0)\<rparr>
      in dirInfo3\<lparr>dir_downloadLabel :=
           dataSizeToString X
             (if dir_blocksAlreadyDownloaded dirInfo3 > 0 then
                word_of_int (dir_blocksAlreadyDownloaded dirInfo3) * syncthingBlockSize X
              else 0)
           @ '' / '' @
           dataSizeToString X
             (if dir_blocksToBeDownloaded dirInfo3 > 0 then
                word_of_int (dir_blocksToBeDownloaded dirInfo3) * syncthingBlockSize X
              else 0)
           @ '' - '' @ digits (dir_downloadPercentage dirInfo3) @ '' %''\<rparr>)"

definition readDownloadProgressEvent ::
  "Externals \<Rightarrow> DateTime \<Rightarrow> QJsonObject \<Rightarrow> SyncthingConnection \<Rightarrow> SyncthingConnection" where
  "readDownloadProgressEvent X eventTime eventData s =
     emit Sig_downloadProgressChanged
       (s\<lparr>m_dirs := map (readDownloadProgressEvent_dir X eventData) (m_dirs s)\<rparr>)"

definition readDirEvent_error ::
  "Externals \<Rightarrow> DateTime \<Rightarrow> nat \<Rightarrow> QJsonValue \<Rightarrow> SyncthingConnection \<Rightarrow> SyncthingConnection" where
  \<comment> \<open>the body of the loop over the errors of a \<open>FolderErrors\<close> event\<close>
  "readDirEvent_error X eventTime index errorVal s =
     (let error = toObject errorVal
      in if error \<noteq> [] then
           let dirInfo = m_dirs s ! index;
               dirError = \<lparr>err_message = toString (jvalue error ''error''),
                           err_path = toString (jvalue error ''path'')\<rparr>
           in if dirError \<notin> set (dir_errors dirInfo) then
                let dirInfo1 = dirInfo\<lparr>dir_errors := dir_errors dirInfo @ [dirError]\<rparr>;
                    dirInfo2 = snd (assignStatus X DirStatus_OutOfSync eventTime dirInfo1);
                    s1 = s\<lparr>m_dirs := (m_dirs s)[index := dirInfo2]\<rparr>
                in if last (dir_errors dirInfo2) \<notin> set (dir_previousErrors dirInfo2) then
                     emitNotification eventTime (err_message (last (dir_errors dirInfo2))) s1
                   else s1
              else s
         else s)"

definition readDirEvent ::
  "Externals \<Rightarrow> DateTime \<Rightarrow> string \<Rightarrow> QJsonObject \<Rightarrow> SyncthingConnection \<Rightarrow> SyncthingConnection" where
  "readDirEvent X eventTime eventType eventData s =
     (let dir = toString (jvalue eventData ''folder'')
      in if dir \<noteq> [] then
           (case findDirInfo dir s of
              Some index \<Rightarrow>
                let dirInfo = m_dirs s ! index
                in if eventType = ''FolderErrors'' then
                     let errors = toArray (jvalue eventData ''errors'')
                     in if errors \<noteq> [] then
                          emit (Sig_dirStatusChanged index)
                            (fold (readDirEvent_error X eventTime index) errors s)
                        else s
                   else if eventType = ''FolderSummary'' then
                     let summary = toObject (jvalue eventData ''summary'')
                     in if summary \<noteq> [] then
                          emit (Sig_dirStatusChanged index)
                            (s\<lparr>m_dirs := (m_dirs s)[index :=
                                 dirInfo\<lparr>dir_globalBytes := toInt 0 (jvalue summary ''globalBytes''),
                                         dir_globalDeleted := toInt 0 (jvalue summary ''globalDeleted''),
                                         dir_globalFiles := toInt 0 (jvalue summary ''globalFiles''),
                                         dir_localBytes := toInt 0 (jvalue summary ''localBytes''),
                                         dir_localDeleted := toInt 0 (jvalue summary ''localDeleted''),
                                         dir_localFiles := toInt 0 (jvalue summary ''localFiles''),
                                         dir_neededByted := toInt 0 (jvalue summary ''needByted''),
                                         dir_neededFiles := toInt 0 (jvalue summary ''needFiles'')\<rparr>]\<rparr>)
                        else s
                   else if eventType = ''FolderCompletion'' then
                     let percentage = toInt 0 (jvalue eventData ''completion'')
                     in if percentage > 0 \<and> percentage < 100 \<and>
                           (dir_progressPercentage dirInfo \<le> 0 \<or> percentage < dir_progressPercentage dirInfo)
                        then s\<lparr>m_dirs := (m_dirs s)[index := dirInfo\<lparr>dir_progressPercentage := percentage\<rparr>]\<rparr>
                        else s
                   else if eventType = ''FolderScanProgress'' then
                     let current = toInt 0 (jvalue eventData ''current'');
                         total = toInt 0 (jvalue eventData ''total'');
                         rate = toInt 0 (jvalue eventData ''rate'')
                     in if current > 0 \<and> total > 0 then
                          let dirInfo1 = dirInfo\<lparr>dir_progressPercentage := int32 (current * 100) sdiv total,
                                                  dir_progressRate := rate\<rparr>;
                              dirInfo2 = snd (assignStatus X DirStatus_Scanning eventTime dirInfo1)
                          in emit (Sig_dirStatusChanged index) (s\<lparr>m_dirs := (m_dirs s)[index := dirInfo2]\<rparr>)
                        else s
                   else s
            | None \<Rightarrow> s)
         else s)"

definition readDeviceEvent ::
  "DateTime \<Rightarrow> string \<Rightarrow> QJsonObject \<Rightarrow> SyncthingConnection \<Rightarrow> SyncthingConnection" where
  "readDeviceEvent eventTime eventType eventData s =
     (if isNull eventTime \<and> isNull (m_lastConnectionsUpdate s) \<and> eventTime < m_lastConnectionsUpdate s
      then s
      else
        let dev = toString (jvalue eventData ''device'')
        in if dev \<noteq> [] then
             (case findDevInfo dev s of
                Some index \<Rightarrow>
                  let devInfo = m_devs s ! index;
                      status = dev_status devInfo;
                      paused = dev_paused devInfo;
                      decided =
                        (if eventType = ''DeviceConnected'' then Some (DevStatus_Idle, paused)
                         else if eventType = ''DeviceDisconnected'' then Some (DevStatus_Disconnected, paused)
                         else if eventType = ''DevicePaused'' then Some (status, True)
                         else if eventType = ''DeviceRejected'' then Some (DevStatus_Rejected, paused)
                         else if eventType = ''DeviceResumed'' then Some (DevStatus_Disconnected, False)
                         else if eventType = ''DeviceDiscovered'' then
                           (if status = DevStatus_Unknown then Some (DevStatus_Disconnected, paused)
                            else Some (status, paused))
                         else None)
                  in (case decided of
                        None \<Rightarrow> s
                      | Some (status', paused') \<Rightarrow>
                          if dev_status devInfo \<noteq> status' \<or> dev_paused devInfo \<noteq> paused' then
                            let devInfo1 = (if dev_status devInfo \<noteq> DevStatus_OwnDevice then
                                              devInfo\<lparr>dev_status := status'\<rparr>
                                            else devInfo);
                                devInfo2 = devInfo1\<lparr>dev_paused := paused'\<rparr>
                            in emit (Sig_devStatusChanged index)
                                 (s\<lparr>m_devs := (m_devs s)[index := devInfo2]\<rparr>)
                          else s)
              | None \<Rightarrow> s)
           else s)"

definition readItemStarted ::
  "DateTime \<Rightarrow> QJsonObject \<Rightarrow> SyncthingConnection \<Rightarrow> SyncthingConnection" where
  "readItemStarted eventTime eventData s = s"

definition readItemFinished ::
  "DateTime \<Rightarrow> QJsonObject \<Rightarrow> SyncthingConnection \<Rightarrow> SyncthingConnection" where
  "readItemFinished eventTime eventData s =
     (let dir = toString (jvalue eventData ''folder'')
      in if dir \<noteq> [] then
           (case findDirInfo dir s of
              Some index \<Rightarrow>
                let dirInfo = m_dirs s ! index;
                    error = toString (jvalue eventData ''error'');
                    item = toString (jvalue eventData ''item'')
                in if error = [] then
                     (if isNull (dir_lastFileTime dirInfo) \<or> eventTime < dir_lastFileTime dirInfo then
                        let dirInfo1 =
                              dirInfo\<lparr>dir_lastFileTime := eventTime,
                                      dir_lastFileName := item,
                                      dir_lastFileDeleted := (jvalue eventData ''action'' \<noteq> JString ''delete'')\<rparr>;
                            s1 = s\<lparr>m_dirs := (m_dirs s)[index := dirInfo1]\<rparr>;
                            s2 = (if eventTime > m_lastFileTime s1 then
                                    s1\<lparr>m_lastFileTime := dir_lastFileTime dirInfo1,
                                       m_lastFileName := dir_lastFileName dirInfo1,
                                       m_lastFileDeleted := dir_lastFileDeleted dirInfo1\<rparr>
                                  else s1)
                        in emit (Sig_dirStatusChanged index) s2
                      else s)
                   else if dir_status dirInfo = DirStatus_OutOfSync then
                     let dirInfo1 =
                           dirInfo\<lparr>dir_errors := dir_errors dirInfo @ [\<lparr>err_message = error, err_path = item\<rparr>],
                                   dir_status := DirStatus_OutOfSync\<rparr>;
                         s1 = emit (Sig_dirStatusChanged index) (s\<lparr>m_dirs := (m_dirs s)[index := dirInfo1]\<rparr>)
                     in emitNotification eventTime error s1
                   else s
            | None \<Rightarrow> s)
         else s)"

section \<open>The event loop\<close>

definition readEvents_event :: "Externals \<Rightarrow> QJsonValue \<Rightarrow> SyncthingConnection \<Rightarrow> SyncthingConnection" where
  \<comment> \<open>the body of the loop over the events of a batch\<close>
  "readEvents_event X eventVal s =
     (let event = toObject eventVal;
          s1 = s\<lparr>m_lastEventId := toInt (m_lastEventId s) (jvalue event ''id'')\<rparr>;
          eventTime = (case fromIsoStringGmt X (toString (jvalue event ''time'')) of
                         Some t \<Rightarrow> t | None \<Rightarrow> 0);
          eventType = toString (jvalue event ''type'');
          eventData = toObject (jvalue event ''data'')
      in if eventType = ''Starting'' then readStartingEvent eventData s1
         else if eventType = ''StateChanged'' then readStatusChangedEvent X eventTime eventData s1
         else if eventType = ''DownloadProgress'' then readDownloadProgressEvent X eventTime eventData s1
         else if take 6 eventType = ''Folder'' then readDirEvent X eventTime eventType eventData s1
         else if take 6 eventType = ''Device'' then readDeviceEvent eventTime eventType eventData s1
         else if eventType = ''ItemStarted'' then readItemStarted eventTime eventData s1
         else if eventType = ''ItemFinished'' then readItemFinished eventTime eventData s1
         else if eventType = ''ConfigSaved'' then requestConfig s1
         else s1)"

definition readEvents_continue :: "SyncthingConnection \<Rightarrow> SyncthingConnection" where
  \<comment> \<open>the end of \<open>readEvents\<close>, reached after a batch and after a timeout\<close>
  "readEvents_continue s =
     (if m_keepPolling s then setStatus Status_Idle (requestEvents s)
      else setStatus Status_Disconnected s)"

definition readEvents :: "Externals \<Rightarrow> QNetworkReply \<Rightarrow> SyncthingConnection \<Rightarrow> SyncthingConnection" where
  "readEvents X reply s =
     (let s1 = takeReply m_eventsReply (\<lambda>s. s\<lparr>m_eventsReply := None\<rparr>) reply s
      in case reply_error reply of
           NoError \<Rightarrow>
             (case reply_document reply of
                JsonDocument doc \<Rightarrow>
                  let replyArray = toArray doc;
                      s2 = emit (Sig_newEvents replyArray) s1
                  in readEvents_continue (fold (readEvents_event X) replyArray s2)
              | JsonParseError errorString \<Rightarrow>
                  startAutoReconnectTimer
                    (setStatus Status_Disconnected
                       (emit (Sig_error (''Unable to parse Syncthing events: '' @ errorString) Parsing) s1)))
         | TimeoutError \<Rightarrow> readEvents_continue s1
         | OperationCanceledError \<Rightarrow>
             (if m_reconnecting s1 then continueReconnecting s1
              else setStatus Status_Disconnected s1)
         | OtherNetworkError \<Rightarrow>
             startAutoReconnectTimer
               (setStatus Status_Disconnected
                  (emit (Sig_error (''Unable to request Syncthing events: '' @ reply_errorString reply)
                           OverallConnection) s1)))"

section \<open>Initial state and sample data\<close>

definition SyncthingConnection_init :: "string \<Rightarrow> string \<Rightarrow> SyncthingConnection" where
  \<comment> \<open>the constructor\<close>
  "SyncthingConnection_init syncthingUrl apiKey =
     \<lparr>m_syncthingUrl = syncthingUrl, m_apiKey = apiKey, m_status = Status_Disconnected,
      m_keepPolling = False, m_reconnecting = False, m_lastEventId = 0,
      m_trafficPollInterval = 2000, m_devStatsPollInterval = 60000,
      m_autoReconnectTimer_active = False, m_autoReconnectTimer_interval = 0,
      m_autoReconnectTries = 0, m_configDir = [], m_myId = [],
      m_totalIncomingTraffic = 0, m_totalOutgoingTraffic = 0,
      m_totalIncomingRate = Double 0, m_totalOutgoingRate = Double 0,
      m_configReply = None, m_statusReply = None, m_connectionsReply = None,
      m_errorsReply = None, m_eventsReply = None,
      m_unreadNotifications = False, m_hasConfig = False, m_hasStatus = False,
      m_dirs = [], m_devs = [], m_syncedDirs = [], m_completedDirs = [],
      m_lastConnectionsUpdate = 0, m_lastFileTime = 0, m_lastErrorTime = 0,
      m_lastFileName = [], m_lastFileDeleted = False,
      emitted = [], requests = [], singleShots = [], nextReply = 0\<rparr>"

definition sampleConnection :: SyncthingConnection where
  \<comment> \<open>a connected instance with two directories and two devices\<close>
  "sampleConnection =
     (SyncthingConnection_init ''http://localhost:8384'' ''key'')
       \<lparr>m_status := Status_Idle, m_keepPolling := True, m_hasConfig := True, m_hasStatus := True,
        m_myId := ''dev1'',
        m_dirs := [(newSyncthingDir ''a'')\<lparr>dir_status := DirStatus_Scanning\<rparr>,
                   (newSyncthingDir ''b'')\<lparr>dir_status := DirStatus_OutOfSync, dir_lastFileTime := 50,
                      dir_errors := [\<lparr>err_message = ''disk full'', err_path = ''img.png''\<rparr>],
                      dir_globalFiles := 12\<rparr>],
        m_devs := [(newSyncthingDev ''dev1'')\<lparr>dev_status := DevStatus_OwnDevice\<rparr>,
                   (newSyncthingDev ''dev2'')\<lparr>dev_status := DevStatus_Idle, dev_paused := True\<rparr>]\<rparr>"

text \<open>
  Sample values of the parameters, to run the handlers on concrete inputs: a date parser given
  by a table, status assignment that stores the status and the time of the transition unless
  the directory has a later transition, a size formatter that prints the number of bytes, and
  a conversion that yields 0 outside the range of the unsigned integers.
\<close>

definition sampleFromIsoString :: "string \<Rightarrow> DateTime option" where
  "sampleFromIsoString =
     map_of [(''2016-11-01T10:00:00Z'', 100), (''2016-11-01T10:00:10Z'', 200),
             (''2016-11-01T10:00:20Z'', 300)]"

definition sampleAssignStatus :: "SyncthingDirStatus \<Rightarrow> DateTime \<Rightarrow> SyncthingDir \<Rightarrow> bool \<times> SyncthingDir" where
  "sampleAssignStatus newStatus time d =
     (if dir_lastStatusUpdate d > time then (False, d)
      else (dir_status d \<noteq> newStatus, d\<lparr>dir_lastStatusUpdate := time, dir_status := newStatus\<rparr>))"

definition sampleAssignStatusStr :: "string \<Rightarrow> DateTime \<Rightarrow> SyncthingDir \<Rightarrow> bool \<times> SyncthingDir" where
  "sampleAssignStatusStr statusStr time d =
     sampleAssignStatus
       (if statusStr = ''idle'' then DirStatus_Idle
        else if statusStr = ''scanning'' then DirStatus_Scanning
        else if statusStr = ''syncing'' then DirStatus_Synchronizing
        else if statusStr = ''error'' then DirStatus_OutOfSync
        else DirStatus_Unknown) time d"

text \<open>
  Modelled from the spec: the constructor of a per-item download progress record (its code is not
  among the sources).  The record holds the relative path of the item and the numbers of blocks
  already downloaded and in total that the entry of the payload reports (fields \<open>Pulled\<close> and
  \<open>Total\<close> of the daemon's DownloadProgress event).
\<close>

definition sampleItemDownloadProgress ::
  "string \<Rightarrow> string \<Rightarrow> QJsonObject \<Rightarrow> SyncthingItemDownloadProgress" where
  "sampleItemDownloadProgress containingDirPath relativeItemPath values =
     \<lparr>item_relativePath = relativeItemPath,
      item_blocksAlreadyDownloaded = toInt 0 (jvalue values ''Pulled''),
      item_totalNumberOfBlocks = toInt 0 (jvalue values ''Total'')\<rparr>"

definition sampleExternals :: Externals where
  "sampleExternals =
     \<lparr>fromIsoStringLocal = sampleFromIsoString, fromIsoStringGmt = sampleFromIsoString,
      assignStatusStr = sampleAssignStatusStr, assignStatus = sampleAssignStatus,
      newItemDownloadProgress = sampleItemDownloadProgress,
      dataSizeToString = (\<lambda>bytes. digits (unat bytes) @ '' bytes''),
      syncthingBlockSize = 131072, uint64OutOfRange = (\<lambda>r. 0)\<rparr>"

definition sampleReply :: "NetworkError \<Rightarrow> QJsonValue \<Rightarrow> QNetworkReply" where
  \<comment> \<open>a finished reply with the given error code whose body parses to the given document\<close>
  "sampleReply err doc =
     \<lparr>reply_id = 0, reply_error = err, reply_errorString = ''error'', reply_document = JsonDocument doc\<rparr>"

definition rejectedEvent :: QJsonValue where
  \<comment> \<open>a DeviceRejected event for the own device of the sample\<close>
  "rejectedEvent =
     JObject [(''id'', JDouble 7), (''type'', JString ''DeviceRejected''),
              (''time'', JString ''2016-11-01T10:00:00Z''),
              (''data'', JObject [(''device'', JString ''dev1'')])]"

definition connectionsReply :: QNetworkReply where
  \<comment> \<open>a connections poll that reports the own device of the sample as disconnected and paused\<close>
  "connectionsReply =
     sampleReply NoError
       (JObject [(''connections'',
                  JObject [(''dev1'', JObject [(''connected'', JBool False), (''paused'', JBool True)])])])"

definition trafficReply :: QNetworkReply where
  "trafficReply =
     sampleReply NoError
       (JObject [(''total'', JObject [(''inBytesTotal'', JDouble 2000), (''outBytesTotal'', JDouble 500)])])"

definition trafficConnection :: SyncthingConnection where
  \<comment> \<open>the sample one second after the epoch of the clock, with 1000 bytes received so far\<close>
  "trafficConnection =
     sampleConnection\<lparr>m_lastConnectionsUpdate := 10000000, m_totalIncomingTraffic := 1000,
                      m_totalOutgoingTraffic := 500\<rparr>"

definition progressEvent :: QJsonObject where
  \<comment> \<open>the data of a DownloadProgress event: one item in flight in each directory of the sample\<close>
  "progressEvent =
     [(''a'', JObject [(''big.iso'', JObject [(''Pulled'', JDouble 5), (''Total'', JDouble 3)])]),
      (''b'', JObject [(''doc.txt'', JObject [(''Pulled'', JDouble 1), (''Total'', JDouble 4)])])]"

definition blocksInRange :: "SyncthingDir \<Rightarrow> bool" where
  \<comment> \<open>the block counts of a directory are values of a 32-bit \<open>int\<close>\<close>
  "blocksInRange d \<longleftrightarrow>
     - 2147483648 \<le> dir_blocksAlreadyDownloaded d \<and> dir_blocksAlreadyDownloaded d < 2147483648 \<and>
     - 2147483648 \<le> dir_blocksToBeDownloaded d \<and> dir_blocksToBeDownloaded d < 2147483648"

fun isErrorSignal :: "Signal \<Rightarrow> bool" where
  "isErrorSignal (Sig_error message category) = True"
| "isErrorSignal sig = False"

definition errorSignals :: "SyncthingConnection \<Rightarrow> Signal list" where
  \<comment> \<open>the error notifications emitted so far\<close>
  "errorSignals s = filter isErrorSignal (emitted s)"

definition reconnectingConnection :: SyncthingConnection where
  \<comment> \<open>the sample after its API key has been cleared and \<open>reconnect\<close> has been called\<close>
  "reconnectingConnection =
     sampleConnection\<lparr>m_apiKey := [], m_reconnecting := True, m_hasConfig := False, m_hasStatus := False\<rparr>"

definition eventId :: "QJsonValue \<Rightarrow> real option" where
  \<comment> \<open>the id an event carries: the number in its field \<open>id\<close>, whatever its size\<close>
  "eventId eventVal = (case jvalue (toObject eventVal) ''id'' of JDouble r \<Rightarrow> Some r | _ \<Rightarrow> None)"

definition fitsInt :: "real \<Rightarrow> bool" where
  \<comment> \<open>the number is integral and a value of a 32-bit \<open>int\<close>: the numbers \<open>toInt\<close> reads\<close>
  "fitsInt r \<longleftrightarrow> of_int \<lfloor>r\<rfloor> = r \<and> - 2147483648 \<le> \<lfloor>r\<rfloor> \<and> \<lfloor>r\<rfloor> \<le> 2147483647"

definition replyEvents :: "QNetworkReply \<Rightarrow> QJsonArray" where
  \<comment> \<open>the events of a batch\<close>
  "replyEvents reply = (case reply_document reply of JsonDocument doc \<Rightarrow> toArray doc | _ \<Rightarrow> [])"

definition eventIds :: "QNetworkReply list \<Rightarrow> real list" where
  \<comment> \<open>the ids of all events of a sequence of batches, in the order of processing\<close>
  "eventIds replies = List.map_filter eventId (concat (map replyEvents replies))"

definition largeIdBatch :: QNetworkReply where
  \<comment> \<open>a batch whose ids pass the largest value of a 32-bit \<open>int\<close>\<close>
  "largeIdBatch =
     sampleReply NoError
       (JArray [JObject [(''id'', JDouble 2147483647), (''type'', JString ''Ping'')],
                JObject [(''id'', JDouble 2147483648), (''type'', JString ''Ping'')],
                JObject [(''id'', JDouble 2147483649), (''type'', JString ''Ping'')]])"

definition lowIdBatch :: QNetworkReply where
  "lowIdBatch =
     sampleReply NoError
       (JArray [JObject [(''id'', JDouble 3), (''type'', JString ''Ping'')],
                JObject [(''id'', JDouble 4), (''type'', JString ''Ping'')]])"

definition reconnectedConnection :: SyncthingConnection where
  \<comment> \<open>a new instance without API key after \<open>reconnect\<close>, which calls \<open>continueReconnecting\<close>
      on an instance that is not connected\<close>
  "reconnectedConnection = continueReconnecting (SyncthingConnection_init ''http://localhost:8384'' [])"

definition restartedConnection :: SyncthingConnection where
  \<comment> \<open>the sample with its traffic totals after the connection has been lost\<close>
  "restartedConnection = trafficConnection\<lparr>m_status := Status_Disconnected\<rparr>"

definition restartedReply :: QNetworkReply where
  \<comment> \<open>the first connections poll after the daemon has been restarted: its counters are small\<close>
  "restartedReply =
     sampleReply NoError
       (JObject [(''total'', JObject [(''inBytesTotal'', JDouble 500), (''outBytesTotal'', JDouble 700)])])"

definition eventBatch1 :: QNetworkReply where
  "eventBatch1 =
     sampleReply NoError
       (JArray [JObject [(''id'', JDouble 5), (''type'', JString ''StateChanged''),
                         (''time'', JString ''2016-11-01T10:00:00Z''),
                         (''data'', JObject [(''folder'', JString ''a''), (''to'', JString ''syncing'')])],
                JObject [(''id'', JDouble 6), (''type'', JString ''Ping'')]])"

definition eventBatch2 :: QNetworkReply where
  "eventBatch2 =
     sampleReply NoError
       (JArray [JObject [(''id'', JDouble 7), (''type'', JString ''StateChanged''),
                         (''time'', JString ''2016-11-01T10:00:10Z''),
                         (''data'', JObject [(''folder'', JString ''a''), (''to'', JString ''idle'')])]])"

definition dirIdOf :: "QJsonValue \<Rightarrow> string" where
  \<comment> \<open>the id of a folder entry of the configuration, as \<open>readDirs\<close> reads it\<close>
  "dirIdOf dirVal = toString (jvalue (toObject dirVal) ''id'')"

definition devIdOf :: "QJsonValue \<Rightarrow> string" where
  \<comment> \<open>the id of a device entry of the configuration, as \<open>readDevs\<close> reads it\<close>
  "devIdOf devVal = toString (jvalue (toObject devVal) ''deviceID'')"

definition existingDir :: "string \<Rightarrow> SyncthingConnection \<Rightarrow> SyncthingDir" where
  \<comment> \<open>the record \<open>addDirInfo\<close> starts from: the existing directory of that id, or a new one\<close>
  "existingDir dirId s =
     (case findDirInfo dirId s of Some row \<Rightarrow> m_dirs s ! row | None \<Rightarrow> newSyncthingDir dirId)"

definition existingDev :: "string \<Rightarrow> SyncthingConnection \<Rightarrow> SyncthingDev" where
  "existingDev devId s =
     (case findDevInfo devId s of Some row \<Rightarrow> m_devs s ! row | None \<Rightarrow> newSyncthingDev devId)"

definition folderB :: QJsonValue where
  \<comment> \<open>the entry of folder \<open>b\<close> in a configuration\<close>
  "folderB =
     JObject [(''id'', JString ''b''), (''label'', JString ''Photos''), (''path'', JString ''/srv/photos''),
              (''devices'', JArray [JObject [(''deviceID'', JString ''dev1'')],
                                    JObject [(''deviceID'', JString ''dev2'')]]),
              (''readOnly'', JBool True), (''rescanIntervalS'', JDouble 60)]"

definition deviceDev2 :: QJsonValue where
  \<comment> \<open>the entry of device \<open>dev2\<close> in a configuration\<close>
  "deviceDev2 =
     JObject [(''deviceID'', JString ''dev2''), (''name'', JString ''laptop''),
              (''addresses'', JArray [JString ''dynamic'']), (''compression'', JString ''metadata'')]"

section \<open>Properties of the aggregate status\<close>

lemma setStatus_dirs_flags:
  "setStatus_dirs dirs row (synced, scanning, synchronizing) = (synced', scanning', synchronizing') \<Longrightarrow>
     (synchronizing' \<longleftrightarrow> synchronizing \<or> (\<exists>d\<in>set dirs. dir_status d = DirStatus_Synchronizing)) \<and>
     (scanning' \<longleftrightarrow> scanning \<or> (\<exists>d\<in>set dirs. dir_status d = DirStatus_Scanning))"
  by (induction dirs arbitrary: row synced scanning synchronizing)
     (auto split: if_splits)

lemma setStatus_devs_iff: "setStatus_devs devs \<longleftrightarrow> (\<exists>d\<in>set devs. dev_paused d)"
  by (induction devs) auto

lemma setStatus_status:
  assumes "m_status s \<noteq> Status_BeingDestroyed"
    and "status \<noteq> Status_Disconnected" and "status \<noteq> Status_Reconnecting"
  shows "m_status (setStatus status s) =
     (if \<exists>d\<in>set (m_dirs s). dir_status d = DirStatus_Synchronizing then Status_Synchronizing
      else if \<exists>d\<in>set (m_dirs s). dir_status d = DirStatus_Scanning then Status_Scanning
      else if \<exists>d\<in>set (m_devs s). dev_paused d then Status_Paused
      else Status_Idle)"
proof -
  obtain synced scanning synchronizing where
    scan: "setStatus_dirs (m_dirs s) 0 (m_syncedDirs s, False, False) = (synced, scanning, synchronizing)"
    by (cases "setStatus_dirs (m_dirs s) 0 (m_syncedDirs s, False, False)") auto
  from setStatus_dirs_flags [OF scan]
  have flags: "synchronizing \<longleftrightarrow> (\<exists>d\<in>set (m_dirs s). dir_status d = DirStatus_Synchronizing)"
    "scanning \<longleftrightarrow> (\<exists>d\<in>set (m_dirs s). dir_status d = DirStatus_Scanning)"
    by simp_all
  show ?thesis
    using assms scan
    by (simp add: setStatus_def Let_def emit_def setStatus_devs_iff flags [symmetric])
qed

lemma setStatus_m_dirs [simp]: "m_dirs (setStatus status s) = m_dirs s"
  by (auto simp: setStatus_def Let_def emit_def split: prod.splits)

lemma setStatus_m_devs [simp]: "m_devs (setStatus status s) = m_devs s"
  by (auto simp: setStatus_def Let_def emit_def split: prod.splits)

text \<open>
  Claim C1.  Whenever \<open>setStatus\<close> recomputes the aggregate status, that is, the connection is
  not being destroyed and the requested status is neither Disconnected nor Reconnecting, the
  resulting overall status is Synchronizing iff some directory is Synchronizing; Scanning iff no
  directory is Synchronizing and some directory is Scanning; Paused iff no directory is Scanning
  or Synchronizing and some device has its paused flag set; and Idle iff none of these holds.
  The directories and devices themselves are left as they are.
\<close>

theorem setStatus_aggregate:
  assumes "m_status s \<noteq> Status_BeingDestroyed"
    and "status \<noteq> Status_Disconnected" and "status \<noteq> Status_Reconnecting"
  shows "m_dirs (setStatus status s) = m_dirs s \<and> m_devs (setStatus status s) = m_devs s \<and>
    (m_status (setStatus status s) = Status_Synchronizing \<longleftrightarrow>
       (\<exists>d\<in>set (m_dirs s). dir_status d = DirStatus_Synchronizing)) \<and>
    (m_status (setStatus status s) = Status_Scanning \<longleftrightarrow>
       \<not> (\<exists>d\<in>set (m_dirs s). dir_status d = DirStatus_Synchronizing) \<and>
       (\<exists>d\<in>set (m_dirs s). dir_status d = DirStatus_Scanning)) \<and>
    (m_status (setStatus status s) = Status_Paused \<longleftrightarrow>
       \<not> (\<exists>d\<in>set (m_dirs s). dir_status d = DirStatus_Synchronizing \<or> dir_status d = DirStatus_Scanning) \<and>
       (\<exists>d\<in>set (m_devs s). dev_paused d)) \<and>
    (m_status (setStatus status s) = Status_Idle \<longleftrightarrow>
       \<not> (\<exists>d\<in>set (m_dirs s). dir_status d = DirStatus_Synchronizing \<or> dir_status d = DirStatus_Scanning) \<and>
       \<not> (\<exists>d\<in>set (m_devs s). dev_paused d))"
  unfolding setStatus_status [OF assms] by auto

theorem setStatus_aggregate_witness:
  "m_status sampleConnection \<noteq> Status_BeingDestroyed \<and>
   Status_Idle \<noteq> Status_Disconnected \<and> Status_Idle \<noteq> Status_Reconnecting \<and>
   (\<exists>d\<in>set (m_dirs sampleConnection). dir_status d = DirStatus_Scanning) \<and>
   m_status (setStatus Status_Idle sampleConnection) = Status_Scanning"
proof -
  have h: "m_status sampleConnection \<noteq> Status_BeingDestroyed"
    by (simp add: sampleConnection_def SyncthingConnection_init_def)
  have d: "m_dirs sampleConnection =
      [(newSyncthingDir ''a'')\<lparr>dir_status := DirStatus_Scanning\<rparr>,
       (newSyncthingDir ''b'')\<lparr>dir_status := DirStatus_OutOfSync, dir_lastFileTime := 50,
          dir_errors := [\<lparr>err_message = ''disk full'', err_path = ''img.png''\<rparr>],
          dir_globalFiles := 12\<rparr>]"
    by (simp add: sampleConnection_def SyncthingConnection_init_def)
  show ?thesis
    using h setStatus_aggregate [OF h, of Status_Idle] by (simp add: d)
qed

section \<open>Looking up entities\<close>

lemma findDirInfo_from_Some:
  "findDirInfo_from dirId ds row = Some r \<Longrightarrow>
     row \<le> r \<and> r - row < length ds \<and> dir_id (ds ! (r - row)) = dirId \<and>
     (\<forall>j < r - row. dir_id (ds ! j) \<noteq> dirId)"
proof (induction ds arbitrary: row)
  case Nil
  then show ?case by simp
next
  case (Cons d ds)
  show ?case
  proof (cases "dir_id d = dirId")
    case True
    with Cons.prems show ?thesis by simp
  next
    case False
    with Cons.prems have "findDirInfo_from dirId ds (Suc row) = Some r" by simp
    from Cons.IH [OF this] have ih: "Suc row \<le> r" "r - Suc row < length ds"
      "dir_id (ds ! (r - Suc row)) = dirId" "\<forall>j < r - Suc row. dir_id (ds ! j) \<noteq> dirId"
      by auto
    have eq: "r - row = Suc (r - Suc row)" using ih(1) by simp
    show ?thesis using ih False unfolding eq
      by (auto simp: less_Suc_eq_0_disj)
  qed
qed

lemma findDirInfo_Some:
  "findDirInfo dirId s = Some index \<Longrightarrow> index < length (m_dirs s) \<and> dir_id (m_dirs s ! index) = dirId"
  using findDirInfo_from_Some [of dirId "m_dirs s" 0 index] by (simp add: findDirInfo_def)

section \<open>Connecting without credentials\<close>

lemma setStatus_m_status_Reconnecting:
  "m_status s \<noteq> Status_BeingDestroyed \<Longrightarrow> m_status (setStatus Status_Reconnecting s) = Status_Reconnecting"
  by (simp add: setStatus_def Let_def emit_def)

lemma reconnectedConnection_state:
  "m_status reconnectedConnection = Status_Reconnecting"
  "m_keepPolling reconnectedConnection"
  "m_apiKey reconnectedConnection = []"
  "requests reconnectedConnection = []"
  by (simp_all add: reconnectedConnection_def continueReconnecting_def Let_def emit_def
      setStatus_def SyncthingConnection_init_def)

text \<open>
  Claim C6 says that \<open>connect\<close>, called while not connected with an empty API key, leaves the
  status Disconnected and keep-polling false.  An instance is not connected in status
  Reconnecting too.  \<open>reconnect\<close> on a new instance without API key leaves it in that status
  with keep-polling set, and \<open>connect\<close> then emits its error and leaves both as they are.
\<close>

theorem connect_insufficient_while_reconnecting:
  "\<not> isConnected reconnectedConnection \<and> m_apiKey reconnectedConnection = [] \<and>
   m_status (connect reconnectedConnection) = Status_Reconnecting \<and>
   m_keepPolling (connect reconnectedConnection) \<and>
   requests (connect reconnectedConnection) = []"
  using reconnectedConnection_state
  by (simp add: connect_def isConnected_def emit_def Let_def)

text \<open>
  Claim C6, amended.  Calling \<open>connect\<close> on an instance that is not connected (its status is
  Disconnected or Reconnecting) and whose API key or base URL is empty emits exactly one error,
  of category OverallConnection, leaves the status as it is, hands no request to the network
  (the request log and the pending config and status replies are unchanged) and does not change
  the keep-polling flag.
\<close>

theorem connect_insufficient:
  assumes "\<not> isConnected s"
    and "m_apiKey s = [] \<or> m_syncthingUrl s = []"
  shows "emitted (connect s) =
           emitted s @ [Sig_error ''Connection configuration is insufficient.'' OverallConnection] \<and>
         m_status (connect s) = m_status s \<and>
         requests (connect s) = requests s \<and>
         m_configReply (connect s) = m_configReply s \<and>
         m_statusReply (connect s) = m_statusReply s \<and>
         m_keepPolling (connect s) = m_keepPolling s"
  using assms by (auto simp: connect_def isConnected_def emit_def Let_def)

theorem connect_insufficient_witness:
  "\<not> isConnected (SyncthingConnection_init ''http://localhost:8384'' []) \<and>
   m_apiKey (SyncthingConnection_init ''http://localhost:8384'' []) = [] \<and>
   emitted (connect (SyncthingConnection_init ''http://localhost:8384'' [])) =
     [Sig_error ''Connection configuration is insufficient.'' OverallConnection] \<and>
   m_status (connect (SyncthingConnection_init ''http://localhost:8384'' [])) = Status_Disconnected \<and>
   requests (connect (SyncthingConnection_init ''http://localhost:8384'' [])) = [] \<and>
   \<not> m_keepPolling (connect (SyncthingConnection_init ''http://localhost:8384'' []))"
proof -
  have h1: "\<not> isConnected (SyncthingConnection_init ''http://localhost:8384'' [])"
    by (simp add: SyncthingConnection_init_def isConnected_def)
  have h2: "m_apiKey (SyncthingConnection_init ''http://localhost:8384'' []) = [] \<or>
            m_syncthingUrl (SyncthingConnection_init ''http://localhost:8384'' []) = []"
    by (simp add: SyncthingConnection_init_def)
  show ?thesis
    using connect_insufficient [OF h1 h2] h1 by (simp add: SyncthingConnection_init_def)
qed

section \<open>Finished items\<close>

text \<open>
  Claim C10.  When an ItemFinished event without error updates the last-synced-file metadata of
  its folder (the folder is known and its last file time is null or later than the event), the
  folder's \<open>lastFileDeleted\<close> flag is set exactly when the action of the event is not
  \<open>delete\<close>, and so is the connection-wide flag when the update is propagated.
\<close>

theorem readItemFinished_lastFileDeleted:
  assumes "toString (jvalue eventData ''folder'') \<noteq> []"
    and "findDirInfo (toString (jvalue eventData ''folder'')) s = Some index"
    and "toString (jvalue eventData ''error'') = []"
    and "isNull (dir_lastFileTime (m_dirs s ! index)) \<or> eventTime < dir_lastFileTime (m_dirs s ! index)"
  shows "(dir_lastFileDeleted (m_dirs (readItemFinished eventTime eventData s) ! index) \<longleftrightarrow>
            toString (jvalue eventData ''action'') \<noteq> ''delete'') \<and>
         dir_lastFileName (m_dirs (readItemFinished eventTime eventData s) ! index) =
            toString (jvalue eventData ''item'') \<and>
         dir_lastFileTime (m_dirs (readItemFinished eventTime eventData s) ! index) = eventTime \<and>
         (eventTime > m_lastFileTime s \<longrightarrow>
            (m_lastFileDeleted (readItemFinished eventTime eventData s) \<longleftrightarrow>
               toString (jvalue eventData ''action'') \<noteq> ''delete''))"
proof -
  have idx: "index < length (m_dirs s)" using findDirInfo_Some [OF assms(2)] by simp
  have act: "(jvalue eventData ''action'' \<noteq> JString ''delete'') \<longleftrightarrow>
             toString (jvalue eventData ''action'') \<noteq> ''delete''"
    by (cases "jvalue eventData ''action''") (simp_all add: toString_def)
  show ?thesis
    using assms idx act by (simp add: readItemFinished_def Let_def emit_def)
qed

theorem readItemFinished_lastFileDeleted_witness:
  "findDirInfo ''a'' sampleConnection = Some 0 \<and>
   isNull (dir_lastFileTime (m_dirs sampleConnection ! 0)) \<and>
   100 > m_lastFileTime sampleConnection \<and>
   \<not> dir_lastFileDeleted (m_dirs (readItemFinished 100
        [(''folder'', JString ''a''), (''item'', JString ''old.txt''), (''action'', JString ''delete'')]
        sampleConnection) ! 0) \<and>
   \<not> m_lastFileDeleted (readItemFinished 100
        [(''folder'', JString ''a''), (''item'', JString ''old.txt''), (''action'', JString ''delete'')]
        sampleConnection)"
proof -
  let ?ev = "[(''folder'', JString ''a''), (''item'', JString ''old.txt''), (''action'', JString ''delete'')]"
  have f: "toString (jvalue ?ev ''folder'') = ''a''" "toString (jvalue ?ev ''error'') = []"
    "toString (jvalue ?ev ''action'') = ''delete''"
    by (simp_all add: jvalue_def toString_def)
  have h1: "toString (jvalue ?ev ''folder'') \<noteq> []" by (simp add: f)
  have h2: "findDirInfo (toString (jvalue ?ev ''folder'')) sampleConnection = Some 0"
    by (simp add: f findDirInfo_def sampleConnection_def SyncthingConnection_init_def newSyncthingDir_def)
  have h3: "isNull (dir_lastFileTime (m_dirs sampleConnection ! 0)) \<or>
            100 < dir_lastFileTime (m_dirs sampleConnection ! 0)"
    by (simp add: isNull_def sampleConnection_def SyncthingConnection_init_def newSyncthingDir_def)
  have h4: "100 > m_lastFileTime sampleConnection"
    by (simp add: sampleConnection_def SyncthingConnection_init_def)
  show ?thesis
    using readItemFinished_lastFileDeleted [OF h1 h2 f(2) h3] h2 h3 h4
    by (simp add: f isNull_def sampleConnection_def SyncthingConnection_init_def newSyncthingDir_def)
qed

text \<open>
  Claim C2.  The claim asks that an ItemFinished event without error whose time is newer than
  the folder's last file time updates the last-synced-file metadata.  The handler compares the
  other way round: folder \<open>b\<close> of the sample has last file time 50; an event of time 100
  for it changes nothing at all, while an event of time 40 replaces the metadata.
\<close>

theorem readItemFinished_newer_event_ignored:
  "dir_lastFileTime (m_dirs sampleConnection ! 1) = 50 \<and>
   readItemFinished 100
      [(''folder'', JString ''b''), (''item'', JString ''file.txt''), (''action'', JString ''update'')]
      sampleConnection = sampleConnection \<and>
   dir_lastFileTime (m_dirs (readItemFinished 40
      [(''folder'', JString ''b''), (''item'', JString ''file.txt''), (''action'', JString ''update'')]
      sampleConnection) ! 1) = 40 \<and>
   dir_lastFileName (m_dirs (readItemFinished 40
      [(''folder'', JString ''b''), (''item'', JString ''file.txt''), (''action'', JString ''update'')]
      sampleConnection) ! 1) = ''file.txt''"
  by (simp add: readItemFinished_def Let_def jvalue_def toString_def findDirInfo_def emit_def
      sampleConnection_def SyncthingConnection_init_def newSyncthingDir_def isNull_def)

section \<open>The own device\<close>

lemma fold_invariant:
  assumes "P s" and "\<And>x s. P s \<Longrightarrow> P (f x s)"
  shows "P (fold f xs s)"
  using assms(1) by (induction xs arbitrary: s) (auto intro: assms(2))

lemma readConnections_dev_OwnDevice:
  "dev_status dev = DevStatus_OwnDevice \<Longrightarrow>
     dev_status (readConnections_dev X connectionObj dev) = DevStatus_OwnDevice"
  by (simp add: readConnections_dev_def)

lemma readConnections_step_OwnDevice:
  assumes "length (m_devs s) = n \<and> dev_status (m_devs s ! index) = DevStatus_OwnDevice"
    and "index < n"
  shows "length (m_devs (readConnections_step X connectionsObj j s)) = n \<and>
         dev_status (m_devs (readConnections_step X connectionsObj j s) ! index) = DevStatus_OwnDevice"
  using assms
  by (cases "j = index")
     (simp_all add: readConnections_step_def Let_def emit_def readConnections_dev_OwnDevice)

lemma readConnections_devices_OwnDevice:
  assumes "index < length (m_devs s)" and "dev_status (m_devs s ! index) = DevStatus_OwnDevice"
  shows "length (m_devs (readConnections_devices X connectionsObj s)) = length (m_devs s) \<and>
         dev_status (m_devs (readConnections_devices X connectionsObj s) ! index) = DevStatus_OwnDevice"
  unfolding readConnections_devices_def
  by (rule fold_invariant [where P = "\<lambda>t. length (m_devs t) = length (m_devs s) \<and>
        dev_status (m_devs t ! index) = DevStatus_OwnDevice"])
     (use assms readConnections_step_OwnDevice in auto)

lemma takeReply_connections_m_devs [simp]:
  "m_devs (takeReply m_connectionsReply (\<lambda>s. s\<lparr>m_connectionsReply := None\<rparr>) reply s) = m_devs s"
  by (simp add: takeReply_def)

lemma readConnections_traffic_m_devs [simp]:
  "m_devs (readConnections_traffic X gmtNow totalObj s) = m_devs s"
  by (simp add: readConnections_traffic_def Let_def emit_def)

lemma readConnections_OwnDevice:
  assumes "index < length (m_devs s)" and "dev_status (m_devs s ! index) = DevStatus_OwnDevice"
  shows "length (m_devs (readConnections X gmtNow gmtNow' reply s)) = length (m_devs s) \<and>
         dev_status (m_devs (readConnections X gmtNow gmtNow' reply s) ! index) = DevStatus_OwnDevice"
proof (cases "reply_error reply")
  case NoError
  show ?thesis
  proof (cases "reply_document reply")
    case (JsonParseError e)
    with NoError assms show ?thesis by (simp add: readConnections_def Let_def emit_def)
  next
    case (JsonDocument doc)
    let ?s3 = "readConnections_traffic X gmtNow (toObject (jvalue (toObject doc) ''total''))
                 (takeReply m_connectionsReply (\<lambda>s. s\<lparr>m_connectionsReply := None\<rparr>) reply s)"
    have "index < length (m_devs ?s3)" "dev_status (m_devs ?s3 ! index) = DevStatus_OwnDevice"
      using assms by simp_all
    from readConnections_devices_OwnDevice [OF this,
        of X "toObject (jvalue (toObject doc) ''connections'')"]
    show ?thesis
      using NoError JsonDocument by (simp add: readConnections_def Let_def)
  qed
qed (use assms in \<open>simp_all add: readConnections_def Let_def emit_def\<close>)

lemma findDevInfo_from_Some:
  "findDevInfo_from devId ds row = Some r \<Longrightarrow>
     row \<le> r \<and> r - row < length ds \<and> dev_id (ds ! (r - row)) = devId \<and>
     (\<forall>j < r - row. dev_id (ds ! j) \<noteq> devId)"
proof (induction ds arbitrary: row)
  case Nil
  then show ?case by simp
next
  case (Cons d ds)
  show ?case
  proof (cases "dev_id d = devId")
    case True
    with Cons.prems show ?thesis by simp
  next
    case False
    with Cons.prems have "findDevInfo_from devId ds (Suc row) = Some r" by simp
    from Cons.IH [OF this] have ih: "Suc row \<le> r" "r - Suc row < length ds"
      "dev_id (ds ! (r - Suc row)) = devId" "\<forall>j < r - Suc row. dev_id (ds ! j) \<noteq> devId"
      by auto
    have eq: "r - row = Suc (r - Suc row)" using ih(1) by simp
    show ?thesis using ih False unfolding eq
      by (auto simp: less_Suc_eq_0_disj)
  qed
qed

lemma findDevInfo_Some:
  "findDevInfo devId s = Some index \<Longrightarrow> index < length (m_devs s) \<and> dev_id (m_devs s ! index) = devId"
  using findDevInfo_from_Some [of devId "m_devs s" 0 index] by (simp add: findDevInfo_def)

lemma readDeviceEvent_OwnDevice:
  assumes "index < length (m_devs s)" and "dev_status (m_devs s ! index) = DevStatus_OwnDevice"
  shows "length (m_devs (readDeviceEvent eventTime eventType eventData s)) = length (m_devs s) \<and>
         dev_status (m_devs (readDeviceEvent eventTime eventType eventData s) ! index) = DevStatus_OwnDevice"
proof (cases "findDevInfo (toString (jvalue eventData ''device'')) s")
  case None
  with assms show ?thesis by (simp add: readDeviceEvent_def Let_def)
next
  case (Some row)
  show ?thesis
  proof (cases "row = index")
    case True
    with Some assms show ?thesis
      by (simp add: readDeviceEvent_def Let_def emit_def)
  next
    case False
    with Some assms show ?thesis
      by (simp add: readDeviceEvent_def Let_def emit_def)
  qed
qed

lemma readEvents_event_Device:
  assumes "take 6 (toString (jvalue (toObject eventVal) ''type'')) = ''Device''"
  shows "m_devs (readEvents_event X eventVal s) =
     m_devs (readDeviceEvent (case fromIsoStringGmt X (toString (jvalue (toObject eventVal) ''time'')) of
                          Some t \<Rightarrow> t | None \<Rightarrow> 0)
               (toString (jvalue (toObject eventVal) ''type''))
               (toObject (jvalue (toObject eventVal) ''data''))
               (s\<lparr>m_lastEventId := toInt (m_lastEventId s) (jvalue (toObject eventVal) ''id'')\<rparr>))"
proof -
  define eventType where "eventType = toString (jvalue (toObject eventVal) ''type'')"
  have t: "take 6 eventType = ''Device''" using assms by (simp add: eventType_def)
  have ne: "eventType \<noteq> ''Starting''" "eventType \<noteq> ''StateChanged''"
    "eventType \<noteq> ''DownloadProgress''" "take 6 eventType \<noteq> ''Folder''"
    using t by auto
  show ?thesis
    unfolding readEvents_event_def Let_def eventType_def [symmetric]
    by (simp add: ne t)
qed

text \<open>
  Claim C7.  A device whose status is OwnDevice keeps that status when a device event is
  handled (whatever its type and data), when the event loop processes an event whose type
  starts with \<open>Device\<close>, and when the result of a connections poll is read (whatever the
  reply); none of them changes the number of devices either.
\<close>

theorem ownDevice_sticky:
  assumes "index < length (m_devs s)" and "dev_status (m_devs s ! index) = DevStatus_OwnDevice"
  shows "dev_status (m_devs (readDeviceEvent eventTime eventType eventData s) ! index) = DevStatus_OwnDevice \<and>
         length (m_devs (readDeviceEvent eventTime eventType eventData s)) = length (m_devs s) \<and>
         (take 6 (toString (jvalue (toObject eventVal) ''type'')) = ''Device'' \<longrightarrow>
            dev_status (m_devs (readEvents_event X eventVal s) ! index) = DevStatus_OwnDevice \<and>
            length (m_devs (readEvents_event X eventVal s)) = length (m_devs s)) \<and>
         dev_status (m_devs (readConnections X gmtNow gmtNow' reply s) ! index) = DevStatus_OwnDevice \<and>
         length (m_devs (readConnections X gmtNow gmtNow' reply s)) = length (m_devs s)"
proof -
  let ?s1 = "s\<lparr>m_lastEventId := toInt (m_lastEventId s) (jvalue (toObject eventVal) ''id'')\<rparr>"
  have "index < length (m_devs ?s1)" "dev_status (m_devs ?s1 ! index) = DevStatus_OwnDevice"
    using assms by simp_all
  note ev = readDeviceEvent_OwnDevice [OF this]
  show ?thesis
    using readDeviceEvent_OwnDevice [OF assms] readConnections_OwnDevice [OF assms]
    by (simp add: readEvents_event_Device ev)
qed

theorem ownDevice_sticky_witness:
  "0 < length (m_devs sampleConnection) \<and>
   dev_status (m_devs sampleConnection ! 0) = DevStatus_OwnDevice \<and>
   take 6 (toString (jvalue (toObject rejectedEvent) ''type'')) = ''Device'' \<and>
   dev_status (m_devs (readEvents_event sampleExternals rejectedEvent sampleConnection) ! 0) =
     DevStatus_OwnDevice \<and>
   dev_status (m_devs (readConnections sampleExternals 10 20 connectionsReply sampleConnection) ! 0) =
     DevStatus_OwnDevice \<and>
   dev_paused (m_devs (readConnections sampleExternals 10 20 connectionsReply sampleConnection) ! 0)"
proof -
  have h1: "0 < length (m_devs sampleConnection)"
    by (simp add: sampleConnection_def SyncthingConnection_init_def)
  have h2: "dev_status (m_devs sampleConnection ! 0) = DevStatus_OwnDevice"
    by (simp add: sampleConnection_def SyncthingConnection_init_def newSyncthingDev_def)
  have h3: "take 6 (toString (jvalue (toObject rejectedEvent) ''type'')) = ''Device''"
    by (simp add: rejectedEvent_def toObject_def jvalue_def toString_def)
  have p: "dev_paused (m_devs (readConnections sampleExternals 10 20 connectionsReply sampleConnection) ! 0)"
    by (simp add: readConnections_def readConnections_traffic_def readConnections_devices_def
        readConnections_step_def readConnections_dev_def connectionsReply_def sampleReply_def
        takeReply_def Let_def emit_def toObject_def jvalue_def toBool_def toString_def
        sampleConnection_def SyncthingConnection_init_def newSyncthingDev_def upt_rec)
  show ?thesis
    using h1 h2 h3 p
      ownDevice_sticky [OF h1 h2, of _ _ _ rejectedEvent sampleExternals 10 20 connectionsReply]
    by simp
qed

section \<open>Transfer rates\<close>

lemma readConnections_step_traffic:
  "m_totalIncomingRate (readConnections_step X connectionsObj j s) = m_totalIncomingRate s \<and>
   m_totalOutgoingRate (readConnections_step X connectionsObj j s) = m_totalOutgoingRate s \<and>
   m_totalIncomingTraffic (readConnections_step X connectionsObj j s) = m_totalIncomingTraffic s \<and>
   m_totalOutgoingTraffic (readConnections_step X connectionsObj j s) = m_totalOutgoingTraffic s"
  by (simp add: readConnections_step_def Let_def emit_def)

lemma readConnections_devices_traffic:
  "m_totalIncomingRate (readConnections_devices X connectionsObj s) = m_totalIncomingRate s \<and>
   m_totalOutgoingRate (readConnections_devices X connectionsObj s) = m_totalOutgoingRate s \<and>
   m_totalIncomingTraffic (readConnections_devices X connectionsObj s) = m_totalIncomingTraffic s \<and>
   m_totalOutgoingTraffic (readConnections_devices X connectionsObj s) = m_totalOutgoingTraffic s"
  unfolding readConnections_devices_def
  by (rule fold_invariant [where P = "\<lambda>t. m_totalIncomingRate t = m_totalIncomingRate s \<and>
        m_totalOutgoingRate t = m_totalOutgoingRate s \<and>
        m_totalIncomingTraffic t = m_totalIncomingTraffic s \<and>
        m_totalOutgoingTraffic t = m_totalOutgoingTraffic s"])
     (simp_all add: readConnections_step_traffic)

text \<open>
  What a successful connections poll does to the rates and to the stored sample: the rates are
  computed from the difference of the unsigned 64-bit counters if a previous sample exists and
  the elapsed time is not zero, and are exactly 0 otherwise; the counters of the payload and the
  second reading of the clock become the stored sample.
\<close>

lemma readConnections_traffic_result:
  assumes "reply_error reply = NoError" and "reply_document reply = JsonDocument doc"
  shows "let totalObj = toObject (jvalue (toObject doc) ''total'');
             totalIncomingTraffic = toUInt64 X (toDouble 0 (jvalue totalObj ''inBytesTotal''));
             totalOutgoingTraffic = toUInt64 X (toDouble 0 (jvalue totalObj ''outBytesTotal''));
             s' = readConnections X gmtNow gmtNow' reply s;
             lastUpdate = m_lastConnectionsUpdate s
         in (\<not> isNull lastUpdate \<and> totalSeconds gmtNow lastUpdate \<noteq> 0 \<longrightarrow>
               m_totalIncomingRate s' =
                 Double (real (unat (totalIncomingTraffic - m_totalIncomingTraffic s)) * 0.008
                           / totalSeconds gmtNow lastUpdate) \<and>
               m_totalOutgoingRate s' =
                 Double (real (unat (totalOutgoingTraffic - m_totalOutgoingTraffic s)) * 0.008
                           / totalSeconds gmtNow lastUpdate)) \<and>
            (isNull lastUpdate \<or> totalSeconds gmtNow lastUpdate = 0 \<longrightarrow>
               m_totalIncomingRate s' = Double 0 \<and> m_totalOutgoingRate s' = Double 0) \<and>
            m_totalIncomingTraffic s' = totalIncomingTraffic \<and>
            m_totalOutgoingTraffic s' = totalOutgoingTraffic \<and>
            m_lastConnectionsUpdate s' = gmtNow'"
  using assms readConnections_devices_traffic
  by (simp add: readConnections_def Let_def takeReply_def readConnections_traffic_def emit_def
      double_divide_def)

lemma connect_keeps_sample:
  "m_totalIncomingTraffic (connect s) = m_totalIncomingTraffic s \<and>
   m_totalOutgoingTraffic (connect s) = m_totalOutgoingTraffic s \<and>
   m_lastConnectionsUpdate (connect s) = m_lastConnectionsUpdate s"
  by (simp add: connect_def Let_def emit_def requestConfig_def requestStatus_def requestData_def)

text \<open>
  Claim C8.  The claim asks for the rate (current bytes - previous bytes) * 0.008 / elapsed
  seconds.  \<open>connect\<close> keeps the previous sample (only \<open>continueReconnecting\<close> clears it), so
  after the daemon has been restarted the first poll reports counters below the stored ones.
  With 1000 bytes stored and 500 bytes reported ten seconds later the claim's rate is -0.4; the
  handler subtracts the unsigned counters, the difference wraps to 18446744073709551116, and the
  rate stored is above 10 to the power of 16.
\<close>

theorem readConnections_rate_after_restart:
  "m_status restartedConnection = Status_Disconnected \<and>
   m_totalIncomingTraffic (connect restartedConnection) = 1000 \<and>
   m_lastConnectionsUpdate (connect restartedConnection) = 10000000 \<and>
   totalSeconds 110000000 (m_lastConnectionsUpdate (connect restartedConnection)) = 10 \<and>
   m_totalIncomingRate
     (readConnections sampleExternals 110000000 110000001 restartedReply (connect restartedConnection)) =
     Double (18446744073709551116 * 0.008 / 10) \<and>
   Double (18446744073709551116 * 0.008 / 10) \<noteq> Double ((500 - 1000) * 0.008 / 10) \<and>
   m_totalIncomingTraffic
     (readConnections sampleExternals 110000000 110000001 restartedReply (connect restartedConnection)) = 500"
proof -
  have r: "reply_error restartedReply = NoError"
    "reply_document restartedReply = JsonDocument (JObject [(''total'',
       JObject [(''inBytesTotal'', JDouble 500), (''outBytesTotal'', JDouble 700)])])"
    by (simp_all add: restartedReply_def sampleReply_def)
  have c: "m_status restartedConnection = Status_Disconnected"
    "m_totalIncomingTraffic restartedConnection = 1000"
    "m_lastConnectionsUpdate restartedConnection = 10000000"
    by (simp_all add: restartedConnection_def trafficConnection_def)
  have k: "m_totalIncomingTraffic (connect restartedConnection) = 1000"
    "m_lastConnectionsUpdate (connect restartedConnection) = 10000000"
    using connect_keeps_sample [of restartedConnection] by (simp_all add: c)
  have t: "totalSeconds 110000000 10000000 = 10" by (simp add: totalSeconds_def)
  have u: "toUInt64 sampleExternals 500 = 500"
    by (simp add: toUInt64_def)
  have w: "unat (500 - 1000 :: 64 word) = 18446744073709551116" by simp
  show ?thesis
    using readConnections_traffic_result [OF r, of sampleExternals 110000000 110000001
        "connect restartedConnection"]
    by (simp add: c k t u w isNull_def Let_def toObject_def jvalue_def toDouble_def)
qed

section \<open>Download progress\<close>

lemma int32_range: "- 2147483648 \<le> int32 k \<and> int32 k < 2147483648"
  using sint_ge [of "word_of_int k :: 32 word"] sint_lt [of "word_of_int k :: 32 word"]
  by (simp add: int32_def)

lemma int32_id: "- 2147483648 \<le> k \<Longrightarrow> k < 2147483648 \<Longrightarrow> int32 k = k"
  by (simp add: int32_def sint_sbintrunc' signed_take_bit_int_eq_self)

lemma readDownloadProgressEvent_item_range:
  "blocksInRange (readDownloadProgressEvent_item X filePair d)"
  using int32_range by (simp add: readDownloadProgressEvent_item_def Let_def blocksInRange_def)

lemma readDownloadProgressEvent_items_range:
  "blocksInRange d \<Longrightarrow> blocksInRange (fold (readDownloadProgressEvent_item X) dirObj d)"
  by (rule fold_invariant) (simp_all add: readDownloadProgressEvent_item_range)

lemma percentage_bound:
  fixes a b :: int
  assumes "0 < a" "a \<le> b" "b < 2147483648"
  shows "(uint32 a * 100 mod 4294967296) div uint32 b \<le> 100"
proof -
  have a: "uint32 a = nat a" and b: "uint32 b = nat b"
    using assms by (simp_all add: uint32_def)
  have "nat a * 100 mod 4294967296 \<le> nat a * 100" by simp
  also have "\<dots> \<le> nat b * 100" using assms by simp
  finally have "(nat a * 100 mod 4294967296) div nat b \<le> (nat b * 100) div nat b"
    by (rule div_le_mono)
  also have "\<dots> = 100" using assms by simp
  finally show ?thesis by (simp add: a b)
qed

lemma readDownloadProgressEvent_dir_percentage:
  "let d' = readDownloadProgressEvent_dir X eventData d in
     blocksInRange d' \<and>
     dir_downloadPercentage d' =
       (if dir_blocksAlreadyDownloaded d' > 0 \<and> dir_blocksToBeDownloaded d' > 0 then
          (uint32 (dir_blocksAlreadyDownloaded d') * 100 mod 4294967296)
            div uint32 (dir_blocksToBeDownloaded d')
        else 0)"
proof -
  let ?d1 = "d\<lparr>dir_downloadingItems := [], dir_blocksAlreadyDownloaded := 0,
                             dir_blocksToBeDownloaded := 0\<rparr>"
  have r1: "blocksInRange ?d1" by (simp add: blocksInRange_def)
  have r2: "blocksInRange (fold (readDownloadProgressEvent_item X) dirObj ?d1)" for dirObj
    by (rule readDownloadProgressEvent_items_range [OF r1])
  show ?thesis
    using r1 r2 [of "toObject (jvalue eventData (dir_id d))"]
    by (simp add: readDownloadProgressEvent_dir_def Let_def blocksInRange_def)
qed

lemma progressEvent_result:
  "map (\<lambda>d. (dir_blocksAlreadyDownloaded d, dir_blocksToBeDownloaded d, dir_downloadPercentage d))
     (m_dirs (readDownloadProgressEvent sampleExternals 0 progressEvent sampleConnection)) =
   [(5, 3, 166), (1, 4, 25)]"
  by (simp add: readDownloadProgressEvent_def readDownloadProgressEvent_dir_def
      readDownloadProgressEvent_item_def progressEvent_def sampleExternals_def
      sampleItemDownloadProgress_def sampleConnection_def SyncthingConnection_init_def
      newSyncthingDir_def emit_def Let_def jvalue_def toObject_def toInt_def uint32_def int32_id)

text \<open>
  Claim C9 says that after a DownloadProgress event the download percentage of every directory
  lies within [0,100].  The handler divides the blocks already downloaded by the blocks to be
  downloaded without bounding the result: a payload that reports 5 of 3 blocks for an item of
  directory \<open>a\<close> yields 166 percent.
\<close>

theorem readDownloadProgressEvent_percentage_above_100:
  "\<not> dir_downloadPercentage
       (m_dirs (readDownloadProgressEvent sampleExternals 0 progressEvent sampleConnection) ! 0) \<le> 100"
proof -
  have "length (m_dirs (readDownloadProgressEvent sampleExternals 0 progressEvent sampleConnection)) = 2"
    using arg_cong [OF progressEvent_result, of length] by simp
  then have "dir_downloadPercentage
       (m_dirs (readDownloadProgressEvent sampleExternals 0 progressEvent sampleConnection) ! 0) = 166"
    using arg_cong [OF progressEvent_result, of "\<lambda>xs. snd (snd (xs ! 0))"] by simp
  then show ?thesis by simp
qed

text \<open>
  Claim C9, amended.  After a DownloadProgress event, for every directory the download
  percentage (an unsigned number) is 0 whenever the number of blocks to be downloaded or the
  number of blocks already downloaded is not positive, and it is at most 100 whenever the
  number of blocks already downloaded does not exceed the number of blocks to be downloaded.
\<close>

theorem readDownloadProgressEvent_percentage:
  assumes "d \<in> set (m_dirs (readDownloadProgressEvent X eventTime eventData s))"
  shows "(dir_blocksToBeDownloaded d \<le> 0 \<or> dir_blocksAlreadyDownloaded d \<le> 0 \<longrightarrow>
            dir_downloadPercentage d = 0) \<and>
         (dir_blocksAlreadyDownloaded d \<le> dir_blocksToBeDownloaded d \<longrightarrow>
            dir_downloadPercentage d \<le> 100)"
proof -
  from assms obtain d0 where d: "d = readDownloadProgressEvent_dir X eventData d0"
    by (auto simp: readDownloadProgressEvent_def emit_def)
  from readDownloadProgressEvent_dir_percentage [of X eventData d0]
  have rng: "blocksInRange d"
    and pct: "dir_downloadPercentage d =
       (if dir_blocksAlreadyDownloaded d > 0 \<and> dir_blocksToBeDownloaded d > 0 then
          (uint32 (dir_blocksAlreadyDownloaded d) * 100 mod 4294967296)
            div uint32 (dir_blocksToBeDownloaded d)
        else 0)"
    by (simp_all add: Let_def d)
  show ?thesis
  proof (cases "dir_blocksAlreadyDownloaded d > 0 \<and> dir_blocksToBeDownloaded d > 0")
    case False
    then show ?thesis using pct by auto
  next
    case True
    have "dir_blocksAlreadyDownloaded d \<le> dir_blocksToBeDownloaded d \<Longrightarrow> dir_downloadPercentage d \<le> 100"
      using percentage_bound [of "dir_blocksAlreadyDownloaded d" "dir_blocksToBeDownloaded d"]
        True rng pct by (simp add: blocksInRange_def)
    then show ?thesis using True by auto
  qed
qed

theorem readDownloadProgressEvent_percentage_witness:
  "m_dirs (readDownloadProgressEvent sampleExternals 0 progressEvent sampleConnection) ! 1
     \<in> set (m_dirs (readDownloadProgressEvent sampleExternals 0 progressEvent sampleConnection)) \<and>
   dir_blocksAlreadyDownloaded
     (m_dirs (readDownloadProgressEvent sampleExternals 0 progressEvent sampleConnection) ! 1) = 1 \<and>
   dir_blocksToBeDownloaded
     (m_dirs (readDownloadProgressEvent sampleExternals 0 progressEvent sampleConnection) ! 1) = 4 \<and>
   dir_downloadPercentage
     (m_dirs (readDownloadProgressEvent sampleExternals 0 progressEvent sampleConnection) ! 1) \<le> 100"
proof -
  let ?ds = "m_dirs (readDownloadProgressEvent sampleExternals 0 progressEvent sampleConnection)"
  have len: "length ?ds = 2"
    using arg_cong [OF progressEvent_result, of length] by simp
  then have mem: "?ds ! 1 \<in> set ?ds" by simp
  have a: "dir_blocksAlreadyDownloaded (?ds ! 1) = 1"
    using arg_cong [OF progressEvent_result, of "\<lambda>xs. fst (xs ! 1)"] len by simp
  have b: "dir_blocksToBeDownloaded (?ds ! 1) = 4"
    using arg_cong [OF progressEvent_result, of "\<lambda>xs. fst (snd (xs ! 1))"] len by simp
  show ?thesis
    using readDownloadProgressEvent_percentage [OF mem] mem a b by simp
qed

section \<open>Canceled requests\<close>

lemma setStatus_frame [simp]:
  "m_hasConfig (setStatus status s) = m_hasConfig s"
  "m_hasStatus (setStatus status s) = m_hasStatus s"
  "m_lastEventId (setStatus status s) = m_lastEventId s"
  "m_apiKey (setStatus status s) = m_apiKey s"
  "m_syncthingUrl (setStatus status s) = m_syncthingUrl s"
  "m_keepPolling (setStatus status s) = m_keepPolling s"
  "m_reconnecting (setStatus status s) = m_reconnecting s"
  "requests (setStatus status s) = requests s"
  "nextReply (setStatus status s) = nextReply s"
  by (simp_all add: setStatus_def Let_def emit_def case_prod_beta)

lemma setStatus_errorSignals [simp]: "errorSignals (setStatus status s) = errorSignals s"
  by (simp add: setStatus_def Let_def emit_def errorSignals_def case_prod_beta)

lemma request_errorSignals [simp]:
  "errorSignals (requestConfig s) = errorSignals s"
  "errorSignals (requestStatus s) = errorSignals s"
  by (simp_all add: requestConfig_def requestStatus_def requestData_def errorSignals_def)

lemma request_emitted [simp]:
  "emitted (requestConfig s) = emitted s"
  "emitted (requestStatus s) = emitted s"
  "emitted (requestEvents s) = emitted s"
  by (simp_all add: requestConfig_def requestStatus_def requestEvents_def requestData_def Let_def)

lemma request_flags [simp]:
  "m_hasConfig (requestConfig s) = m_hasConfig s"
  "m_hasStatus (requestConfig s) = m_hasStatus s"
  "m_hasConfig (requestStatus s) = m_hasConfig s"
  "m_hasStatus (requestStatus s) = m_hasStatus s"
  by (simp_all add: requestConfig_def requestStatus_def requestData_def)

lemma takeReply_frame:
  assumes "\<And>t. emitted (reset t) = emitted t" "\<And>t. m_hasConfig (reset t) = m_hasConfig t"
    "\<And>t. m_hasStatus (reset t) = m_hasStatus t"
  shows "emitted (takeReply pending reset reply s) = emitted s \<and>
         m_hasConfig (takeReply pending reset reply s) = m_hasConfig s \<and>
         m_hasStatus (takeReply pending reset reply s) = m_hasStatus s"
  using assms by (simp add: takeReply_def)

lemma continueReconnecting_canceled:
  "\<not> m_hasConfig (continueReconnecting s) \<and> \<not> m_hasStatus (continueReconnecting s) \<and>
   errorSignals (continueReconnecting s) =
     errorSignals s @
       (if m_apiKey s = [] \<or> m_syncthingUrl s = [] then
          [Sig_error ''Connection configuration is insufficient.'' OverallConnection]
        else [])"
proof -
  have e: "errorSignals (t\<lparr>emitted := emitted t @ [Sig_newConfig []]\<rparr>) = errorSignals t" for t
    by (simp add: errorSignals_def)
  have u: "errorSignals (setStatus Status_Reconnecting (emit (Sig_newConfig []) s)) = errorSignals s"
    by (simp add: emit_def e)
  show ?thesis
    using u by (simp add: continueReconnecting_def Let_def emit_def errorSignals_def)
qed

text \<open>
  Claim C5, amended.  When a request completes with the canceled outcome, the handlers of the
  config, status, connections, directory statistics, device statistics and errors requests emit
  nothing and leave the two readiness flags unchanged.  So does the handler of the events
  request as far as errors and the flags are concerned, provided the reconnecting flag is not
  set.  When it is set, the handler restarts the connection: both readiness flags are false
  afterwards, and the only error emitted is the configuration-insufficient error, emitted
  exactly when the API key or the base URL is empty.
\<close>

theorem canceled_requests:
  assumes "reply_error reply = OperationCanceledError"
  shows "(emitted (readConfig reply s) = emitted s \<and>
          m_hasConfig (readConfig reply s) = m_hasConfig s \<and>
          m_hasStatus (readConfig reply s) = m_hasStatus s) \<and>
         (emitted (readStatus reply s) = emitted s \<and>
          m_hasConfig (readStatus reply s) = m_hasConfig s \<and>
          m_hasStatus (readStatus reply s) = m_hasStatus s) \<and>
         (emitted (readConnections X gmtNow gmtNow' reply s) = emitted s \<and>
          m_hasConfig (readConnections X gmtNow gmtNow' reply s) = m_hasConfig s \<and>
          m_hasStatus (readConnections X gmtNow gmtNow' reply s) = m_hasStatus s) \<and>
         (emitted (readDirStatistics X reply s) = emitted s \<and>
          m_hasConfig (readDirStatistics X reply s) = m_hasConfig s \<and>
          m_hasStatus (readDirStatistics X reply s) = m_hasStatus s) \<and>
         (emitted (readDeviceStatistics X reply s) = emitted s \<and>
          m_hasConfig (readDeviceStatistics X reply s) = m_hasConfig s \<and>
          m_hasStatus (readDeviceStatistics X reply s) = m_hasStatus s) \<and>
         (emitted (readErrors X now reply s) = emitted s \<and>
          m_hasConfig (readErrors X now reply s) = m_hasConfig s \<and>
          m_hasStatus (readErrors X now reply s) = m_hasStatus s) \<and>
         (\<not> m_reconnecting s \<longrightarrow>
            errorSignals (readEvents X reply s) = errorSignals s \<and>
            m_hasConfig (readEvents X reply s) = m_hasConfig s \<and>
            m_hasStatus (readEvents X reply s) = m_hasStatus s) \<and>
         (m_reconnecting s \<longrightarrow>
            \<not> m_hasConfig (readEvents X reply s) \<and> \<not> m_hasStatus (readEvents X reply s) \<and>
            errorSignals (readEvents X reply s) =
              errorSignals s @
                (if m_apiKey s = [] \<or> m_syncthingUrl s = [] then
                   [Sig_error ''Connection configuration is insufficient.'' OverallConnection]
                 else []))"
proof -
  have c1: "emitted (readConfig reply s) = emitted s \<and>
          m_hasConfig (readConfig reply s) = m_hasConfig s \<and>
          m_hasStatus (readConfig reply s) = m_hasStatus s"
    using assms by (simp add: readConfig_def Let_def takeReply_def)
  have c2: "emitted (readStatus reply s) = emitted s \<and>
          m_hasConfig (readStatus reply s) = m_hasConfig s \<and>
          m_hasStatus (readStatus reply s) = m_hasStatus s"
    using assms by (simp add: readStatus_def Let_def takeReply_def)
  have c3: "emitted (readConnections X gmtNow gmtNow' reply s) = emitted s \<and>
          m_hasConfig (readConnections X gmtNow gmtNow' reply s) = m_hasConfig s \<and>
          m_hasStatus (readConnections X gmtNow gmtNow' reply s) = m_hasStatus s"
    using assms by (simp add: readConnections_def Let_def takeReply_def)
  have c4: "emitted (readDirStatistics X reply s) = emitted s \<and>
          m_hasConfig (readDirStatistics X reply s) = m_hasConfig s \<and>
          m_hasStatus (readDirStatistics X reply s) = m_hasStatus s"
    using assms by (simp add: readDirStatistics_def)
  have c5: "emitted (readDeviceStatistics X reply s) = emitted s \<and>
          m_hasConfig (readDeviceStatistics X reply s) = m_hasConfig s \<and>
          m_hasStatus (readDeviceStatistics X reply s) = m_hasStatus s"
    using assms by (simp add: readDeviceStatistics_def)
  have c6: "emitted (readErrors X now reply s) = emitted s \<and>
          m_hasConfig (readErrors X now reply s) = m_hasConfig s \<and>
          m_hasStatus (readErrors X now reply s) = m_hasStatus s"
    using assms by (simp add: readErrors_def Let_def takeReply_def)
  let ?s1 = "takeReply m_eventsReply (\<lambda>s. s\<lparr>m_eventsReply := None\<rparr>) reply s"
  have s1: "errorSignals ?s1 = errorSignals s" "m_hasConfig ?s1 = m_hasConfig s"
    "m_hasStatus ?s1 = m_hasStatus s" "m_reconnecting ?s1 = m_reconnecting s"
    "m_apiKey ?s1 = m_apiKey s" "m_syncthingUrl ?s1 = m_syncthingUrl s"
    by (simp_all add: takeReply_def errorSignals_def)
  have ev: "readEvents X reply s =
      (if m_reconnecting s then continueReconnecting ?s1 else setStatus Status_Disconnected ?s1)"
    using assms by (simp add: readEvents_def Let_def s1)
  have c7: "\<not> m_reconnecting s \<longrightarrow>
            errorSignals (readEvents X reply s) = errorSignals s \<and>
            m_hasConfig (readEvents X reply s) = m_hasConfig s \<and>
            m_hasStatus (readEvents X reply s) = m_hasStatus s"
    by (simp add: ev s1)
  have c8: "m_reconnecting s \<longrightarrow>
            \<not> m_hasConfig (readEvents X reply s) \<and> \<not> m_hasStatus (readEvents X reply s) \<and>
            errorSignals (readEvents X reply s) =
              errorSignals s @
                (if m_apiKey s = [] \<or> m_syncthingUrl s = [] then
                   [Sig_error ''Connection configuration is insufficient.'' OverallConnection]
                 else [])"
    using continueReconnecting_canceled [of ?s1] by (simp add: ev s1)
  show ?thesis
    by (rule conjI [OF c1 conjI [OF c2 conjI [OF c3 conjI [OF c4 conjI [OF c5 conjI [OF c6 conjI [OF c7 c8]]]]]]])
qed

text \<open>
  Claim C5 says that no handler emits an error notification for a canceled request.  The
  handler of the events request restarts the connection when the reconnecting flag is set, and
  the restart reports insufficient configuration: with the API key cleared, the canceled
  completion emits an error.
\<close>

theorem canceled_events_reply_emits_error:
  "reply_error (sampleReply OperationCanceledError JNull) = OperationCanceledError \<and>
   errorSignals reconnectingConnection = [] \<and>
   errorSignals (readEvents sampleExternals (sampleReply OperationCanceledError JNull) reconnectingConnection) =
     [Sig_error ''Connection configuration is insufficient.'' OverallConnection]"
  by (simp add: readEvents_def continueReconnecting_def setStatus_def takeReply_def emit_def
      Let_def sampleReply_def reconnectingConnection_def sampleConnection_def
      SyncthingConnection_init_def errorSignals_def)

theorem canceled_requests_witness:
  "reply_error (sampleReply OperationCanceledError JNull) = OperationCanceledError \<and>
   \<not> m_reconnecting sampleConnection \<and>
   emitted (readConfig (sampleReply OperationCanceledError JNull) sampleConnection) = [] \<and>
   m_hasConfig (readConfig (sampleReply OperationCanceledError JNull) sampleConnection) \<and>
   errorSignals (readEvents sampleExternals (sampleReply OperationCanceledError JNull) sampleConnection) = [] \<and>
   m_hasConfig (readEvents sampleExternals (sampleReply OperationCanceledError JNull) sampleConnection) \<and>
   m_hasStatus (readEvents sampleExternals (sampleReply OperationCanceledError JNull) sampleConnection)"
proof -
  have h: "reply_error (sampleReply OperationCanceledError JNull) = OperationCanceledError"
    by (simp add: sampleReply_def)
  have c: "\<not> m_reconnecting sampleConnection" "emitted sampleConnection = []"
    "m_hasConfig sampleConnection" "m_hasStatus sampleConnection"
    by (simp_all add: sampleConnection_def SyncthingConnection_init_def)
  show ?thesis
    using canceled_requests [where s = sampleConnection and X = sampleExternals, OF h] h
    by (simp add: c errorSignals_def)
qed

section \<open>The last-seen event id\<close>

lemma request_lastEventId [simp]:
  "m_lastEventId (requestConfig s) = m_lastEventId s"
  "m_lastEventId (requestEvents s) = m_lastEventId s"
  by (simp_all add: requestConfig_def requestEvents_def requestData_def Let_def)

lemma emitNotification_lastEventId [simp]:
  "m_lastEventId (emitNotification time message s) = m_lastEventId s"
  by (simp add: emitNotification_def Let_def emit_def)

lemma readStartingEvent_lastEventId [simp]:
  "m_lastEventId (readStartingEvent eventData s) = m_lastEventId s"
  by (simp add: readStartingEvent_def Let_def emit_def)

lemma readStatusChangedEvent_lastEventId [simp]:
  "m_lastEventId (readStatusChangedEvent X eventTime eventData s) = m_lastEventId s"
  by (simp add: readStatusChangedEvent_def Let_def emit_def case_prod_beta split: option.split)

lemma readDownloadProgressEvent_lastEventId [simp]:
  "m_lastEventId (readDownloadProgressEvent X eventTime eventData s) = m_lastEventId s"
  by (simp add: readDownloadProgressEvent_def emit_def)

lemma readDirEvent_error_lastEventId:
  "m_lastEventId (readDirEvent_error X eventTime index errorVal s) = m_lastEventId s"
  by (simp add: readDirEvent_error_def Let_def)

lemma readDirEvent_errors_lastEventId:
  "m_lastEventId (fold (readDirEvent_error X eventTime index) errors s) = m_lastEventId s"
  by (rule fold_invariant [where P = "\<lambda>t. m_lastEventId t = m_lastEventId s"])
     (simp_all add: readDirEvent_error_lastEventId)

lemma readDirEvent_lastEventId [simp]:
  "m_lastEventId (readDirEvent X eventTime eventType eventData s) = m_lastEventId s"
  by (simp add: readDirEvent_def Let_def emit_def readDirEvent_errors_lastEventId split: option.split)

lemma readDeviceEvent_lastEventId [simp]:
  "m_lastEventId (readDeviceEvent eventTime eventType eventData s) = m_lastEventId s"
  by (simp add: readDeviceEvent_def Let_def emit_def split: option.split)

lemma readItemFinished_lastEventId [simp]:
  "m_lastEventId (readItemFinished eventTime eventData s) = m_lastEventId s"
  by (simp add: readItemFinished_def Let_def emit_def split: option.split)

lemma toInt_eventId:
  "toInt dflt (jvalue (toObject eventVal) ''id'') =
     (case eventId eventVal of Some r \<Rightarrow> if fitsInt r then \<lfloor>r\<rfloor> else dflt | None \<Rightarrow> dflt)"
  by (cases "jvalue (toObject eventVal) ''id''") (simp_all add: toInt_def eventId_def fitsInt_def)

lemma readEvents_event_lastEventId:
  "m_lastEventId (readEvents_event X eventVal s) =
     (case eventId eventVal of
        Some r \<Rightarrow> if fitsInt r then \<lfloor>r\<rfloor> else m_lastEventId s
      | None \<Rightarrow> m_lastEventId s)"
  by (simp add: readEvents_event_def Let_def readItemStarted_def toInt_eventId)

lemma map_filter_append: "List.map_filter f (xs @ ys) = List.map_filter f xs @ List.map_filter f ys"
  by (simp add: List.map_filter_def)

lemma fitsInt_floor: "fitsInt r \<Longrightarrow> real_of_int \<lfloor>r\<rfloor> = r"
  by (simp add: fitsInt_def)

lemma readEvents_events_lastEventId:
  "real_of_int (m_lastEventId (fold (readEvents_event X) events s)) =
     last (real_of_int (m_lastEventId s) # filter fitsInt (List.map_filter eventId events))"
proof (induction events arbitrary: s)
  case Nil
  show ?case by (simp add: List.map_filter_def)
next
  case (Cons ev events)
  show ?case
  proof (cases "eventId ev")
    case None
    then show ?thesis
      by (simp add: Cons.IH readEvents_event_lastEventId List.map_filter_def)
  next
    case (Some r)
    then show ?thesis
      by (cases "fitsInt r")
         (simp_all add: Cons.IH readEvents_event_lastEventId List.map_filter_def fitsInt_floor)
  qed
qed

lemma readEvents_continue_lastEventId [simp]:
  "m_lastEventId (readEvents_continue s) = m_lastEventId s"
  by (simp add: readEvents_continue_def)

lemma readEvents_batch_lastEventId:
  assumes "reply_error reply = NoError" and "reply_document reply = JsonDocument doc"
  shows "real_of_int (m_lastEventId (readEvents X reply s)) =
     last (real_of_int (m_lastEventId s) # filter fitsInt (List.map_filter eventId (replyEvents reply)))"
  using assms
  by (simp add: readEvents_def Let_def readEvents_events_lastEventId replyEvents_def
      emit_def takeReply_def)

lemma readEvents_batches_lastEventId:
  assumes "\<forall>reply\<in>set replies. reply_error reply = NoError \<and> (\<exists>doc. reply_document reply = JsonDocument doc)"
  shows "real_of_int (m_lastEventId (fold (readEvents X) replies s)) =
     last (real_of_int (m_lastEventId s) # filter fitsInt (eventIds replies))"
  using assms
proof (induction replies arbitrary: s)
  case Nil
  show ?case by (simp add: eventIds_def List.map_filter_def)
next
  case (Cons reply replies)
  from Cons.prems obtain doc where r: "reply_error reply = NoError" "reply_document reply = JsonDocument doc"
    by auto
  have ih: "real_of_int (m_lastEventId (fold (readEvents X) replies (readEvents X reply s))) =
      last (real_of_int (m_lastEventId (readEvents X reply s)) # filter fitsInt (eventIds replies))"
    using Cons.prems by (intro Cons.IH) simp
  show ?case
    by (simp add: ih readEvents_batch_lastEventId [OF r] eventIds_def map_filter_append)
qed

lemma sorted_le_last:
  fixes xs :: "'a::linorder list"
  shows "sorted xs \<Longrightarrow> x \<in> set xs \<Longrightarrow> x \<le> last xs"
proof (induction xs)
  case Nil
  then show ?case by simp
next
  case (Cons a xs)
  show ?case
  proof (cases "xs = []")
    case True
    with Cons.prems show ?thesis by simp
  next
    case False
    then have "last xs \<in> set xs" by simp
    with Cons False show ?thesis by auto
  qed
qed

lemma sorted_last_Max:
  fixes xs :: "'a::linorder list"
  assumes "sorted xs" and "xs \<noteq> []"
  shows "last xs = Max (set xs)"
  using assms sorted_le_last [OF assms(1)]
  by (intro Max_eqI [symmetric]) auto

lemma largeIdBatch_ids: "eventIds [largeIdBatch] = [2147483647, 2147483648, 2147483649]"
  by (simp add: eventIds_def replyEvents_def largeIdBatch_def sampleReply_def
      toArray_def List.map_filter_def eventId_def toObject_def jvalue_def)

lemma lowIdBatch_ids: "eventIds [lowIdBatch] = [3, 4]"
  by (simp add: eventIds_def replyEvents_def lowIdBatch_def sampleReply_def
      toArray_def List.map_filter_def eventId_def toObject_def jvalue_def)

lemma sample_fitsInt:
  "fitsInt 2147483647" "\<not> fitsInt 2147483648" "\<not> fitsInt 2147483649" "fitsInt 3" "fitsInt 4"
  "fitsInt 5" "fitsInt 6" "fitsInt 7"
  by (simp_all add: fitsInt_def)

text \<open>
  Claim C4 says that after batches with increasing ids the stored id is the maximum of all the
  ids, and that it never decreases.  The handler reads an id as a 32-bit \<open>int\<close> and skips
  every id that is not one: for the increasing ids 2147483647, 2147483648 and 2147483649 the
  stored id is 2147483647, not their maximum.  And the ids are not compared with the id stored
  before: with 10 stored, a batch with the ids 3 and 4 leaves 4.
\<close>

theorem readEvents_lastEventId_not_max:
  "reply_error largeIdBatch = NoError \<and>
   eventIds [largeIdBatch] = [2147483647, 2147483648, 2147483649] \<and>
   m_lastEventId (fold (readEvents sampleExternals) [largeIdBatch] sampleConnection) = 2147483647 \<and>
   Max (set (eventIds [largeIdBatch])) = 2147483649 \<and>
   reply_error lowIdBatch = NoError \<and>
   eventIds [lowIdBatch] = [3, 4] \<and>
   m_lastEventId (sampleConnection\<lparr>m_lastEventId := 10\<rparr>) = 10 \<and>
   m_lastEventId (fold (readEvents sampleExternals) [lowIdBatch] (sampleConnection\<lparr>m_lastEventId := 10\<rparr>)) = 4"
proof -
  have ok: "\<forall>reply\<in>set [largeIdBatch]. reply_error reply = NoError \<and> (\<exists>doc. reply_document reply = JsonDocument doc)"
    "\<forall>reply\<in>set [lowIdBatch]. reply_error reply = NoError \<and> (\<exists>doc. reply_document reply = JsonDocument doc)"
    by (simp_all add: largeIdBatch_def lowIdBatch_def sampleReply_def)
  have a: "real_of_int (m_lastEventId (fold (readEvents sampleExternals) [largeIdBatch] sampleConnection)) =
        real_of_int 2147483647"
    unfolding readEvents_batches_lastEventId [OF ok(1)]
    by (simp add: largeIdBatch_ids sample_fitsInt)
  have b: "real_of_int (m_lastEventId (fold (readEvents sampleExternals) [lowIdBatch]
        (sampleConnection\<lparr>m_lastEventId := 10\<rparr>))) = real_of_int 4"
    unfolding readEvents_batches_lastEventId [OF ok(2)]
    by (simp add: lowIdBatch_ids sample_fitsInt)
  have e: "reply_error largeIdBatch = NoError" "reply_error lowIdBatch = NoError"
    by (simp_all add: largeIdBatch_def lowIdBatch_def sampleReply_def)
  show ?thesis
    using a [unfolded of_int_eq_iff] b [unfolded of_int_eq_iff] e
    by (simp add: largeIdBatch_ids lowIdBatch_ids)
qed

text \<open>
  Claim C4, amended.  Let a sequence of event batches be processed by \<open>readEvents\<close>, each a
  successful reply whose body parses, and let the ids of their events be in increasing order.
  Then the stored last-seen event id is the maximum of those ids that are values of a 32-bit
  \<open>int\<close>, and it is unchanged if there is none; so it is the maximum of all ids if every id
  is such a value.  If none of these ids is below the id stored before, the stored id has not
  decreased.
\<close>

theorem readEvents_lastEventId:
  assumes "\<forall>reply\<in>set replies. reply_error reply = NoError \<and> (\<exists>doc. reply_document reply = JsonDocument doc)"
    and "sorted (eventIds replies)"
  shows "(filter fitsInt (eventIds replies) \<noteq> [] \<longrightarrow>
            real_of_int (m_lastEventId (fold (readEvents X) replies s)) =
              Max (set (filter fitsInt (eventIds replies)))) \<and>
         (filter fitsInt (eventIds replies) = [] \<longrightarrow>
            m_lastEventId (fold (readEvents X) replies s) = m_lastEventId s) \<and>
         (eventIds replies \<noteq> [] \<and> (\<forall>r\<in>set (eventIds replies). fitsInt r) \<longrightarrow>
            real_of_int (m_lastEventId (fold (readEvents X) replies s)) = Max (set (eventIds replies))) \<and>
         ((\<forall>r\<in>set (filter fitsInt (eventIds replies)). real_of_int (m_lastEventId s) \<le> r) \<longrightarrow>
            m_lastEventId s \<le> m_lastEventId (fold (readEvents X) replies s))"
proof -
  let ?ids = "filter fitsInt (eventIds replies)"
  have eq: "real_of_int (m_lastEventId (fold (readEvents X) replies s)) =
      last (real_of_int (m_lastEventId s) # ?ids)"
    by (rule readEvents_batches_lastEventId [OF assms(1)])
  have srt: "sorted ?ids" using assms(2) by (rule sorted_wrt_filter)
  have all: "?ids = eventIds replies" if "\<forall>r\<in>set (eventIds replies). fitsInt r"
    using that by simp
  show ?thesis
  proof (cases "?ids = []")
    case True
    have "real_of_int (m_lastEventId (fold (readEvents X) replies s)) = real_of_int (m_lastEventId s)"
      by (simp add: eq True)
    then have same: "m_lastEventId (fold (readEvents X) replies s) = m_lastEventId s"
      by (simp only: of_int_eq_iff)
    have "eventIds replies = []" if "\<forall>r\<in>set (eventIds replies). fitsInt r"
      using all [OF that] True by simp
    then show ?thesis using True same by auto
  next
    case False
    then have l: "last (real_of_int (m_lastEventId s) # ?ids) = last ?ids" by simp
    have m: "last ?ids = Max (set ?ids)"
      by (rule sorted_last_Max [OF srt False])
    have mem: "last ?ids \<in> set ?ids" using False by (rule last_in_set)
    have c1: "real_of_int (m_lastEventId (fold (readEvents X) replies s)) = Max (set ?ids)"
      by (simp only: eq l m)
    have c3: "real_of_int (m_lastEventId (fold (readEvents X) replies s)) = Max (set (eventIds replies))"
      if "\<forall>r\<in>set (eventIds replies). fitsInt r"
      using c1 all [OF that] by simp
    have c4: "m_lastEventId s \<le> m_lastEventId (fold (readEvents X) replies s)"
      if "\<forall>r\<in>set ?ids. real_of_int (m_lastEventId s) \<le> r"
    proof -
      from that mem have "real_of_int (m_lastEventId s) \<le> last ?ids" by blast
      then have "real_of_int (m_lastEventId s) \<le> real_of_int (m_lastEventId (fold (readEvents X) replies s))"
        by (simp only: eq l)
      then show ?thesis by (simp only: of_int_le_iff)
    qed
    show ?thesis using False c1 c3 c4 by blast
  qed
qed

lemma sample_eventIds: "eventIds [eventBatch1, eventBatch2] = [5, 6, 7]"
  by (simp add: eventIds_def replyEvents_def eventBatch1_def eventBatch2_def sampleReply_def
      toArray_def List.map_filter_def eventId_def toObject_def jvalue_def)

theorem readEvents_lastEventId_witness:
  "reply_error eventBatch1 = NoError \<and> (\<exists>doc. reply_document eventBatch1 = JsonDocument doc) \<and>
   reply_error eventBatch2 = NoError \<and> (\<exists>doc. reply_document eventBatch2 = JsonDocument doc) \<and>
   eventIds [eventBatch1, eventBatch2] = [5, 6, 7] \<and>
   filter fitsInt (eventIds [eventBatch1, eventBatch2]) = [5, 6, 7] \<and>
   m_lastEventId sampleConnection = 0 \<and>
   m_lastEventId (fold (readEvents sampleExternals) [eventBatch1, eventBatch2] sampleConnection) = 7"
proof -
  have h1: "\<forall>reply\<in>set [eventBatch1, eventBatch2].
      reply_error reply = NoError \<and> (\<exists>doc. reply_document reply = JsonDocument doc)"
    by (simp add: eventBatch1_def eventBatch2_def sampleReply_def)
  have h2: "sorted (eventIds [eventBatch1, eventBatch2])"
    by (simp add: sample_eventIds)
  have f: "filter fitsInt (eventIds [eventBatch1, eventBatch2]) = [5, 6, 7]"
    by (simp add: sample_eventIds sample_fitsInt)
  have c: "m_lastEventId sampleConnection = 0"
    by (simp add: sampleConnection_def SyncthingConnection_init_def)
  have "real_of_int (m_lastEventId (fold (readEvents sampleExternals) [eventBatch1, eventBatch2]
      sampleConnection)) = real_of_int 7"
    using readEvents_lastEventId [OF h1 h2, of sampleExternals sampleConnection]
    by (simp add: f)
  then have "m_lastEventId (fold (readEvents sampleExternals) [eventBatch1, eventBatch2]
      sampleConnection) = 7"
    by (simp only: of_int_eq_iff)
  then show ?thesis using h1 c f by (simp add: sample_eventIds)
qed

section \<open>Reconciling a configuration\<close>

lemma findDirInfo_from_update:
  "r < length ds \<Longrightarrow> dir_id (ds ! r) \<noteq> dirId \<Longrightarrow> dir_id d' \<noteq> dirId \<Longrightarrow>
     findDirInfo_from dirId (ds[r := d']) row = findDirInfo_from dirId ds row"
proof (induction ds arbitrary: r row)
  case Nil
  then show ?case by simp
next
  case (Cons d ds)
  show ?case
  proof (cases r)
    case 0
    with Cons.prems show ?thesis by simp
  next
    case (Suc r')
    with Cons.prems Cons.IH [of r' "Suc row"] show ?thesis by simp
  qed
qed

lemma addDirInfo_other:
  assumes "x \<noteq> dirId" and "dirId \<noteq> []" and "addDirInfo nd x s = Some (nd', s')"
  shows "(\<exists>d. nd' = nd @ [d]) \<and> findDirInfo dirId s' = findDirInfo dirId s \<and>
         existingDir dirId s' = existingDir dirId s"
proof (cases "findDirInfo x s")
  case None
  with assms show ?thesis by (auto simp: addDirInfo_def split: if_splits)
next
  case (Some r)
  from findDirInfo_Some [OF Some] have r: "r < length (m_dirs s)" "dir_id (m_dirs s ! r) = x"
    by simp_all
  from assms(3) Some have nd': "nd' = nd @ [m_dirs s ! r]"
    and s': "s' = s\<lparr>m_dirs := (m_dirs s)[r := movedFromDir (m_dirs s ! r)]\<rparr>"
    by (auto simp: addDirInfo_def split: if_splits)
  have m: "dir_id (movedFromDir (m_dirs s ! r)) \<noteq> dirId"
    using assms(2) by (simp add: movedFromDir_def)
  have f: "findDirInfo dirId s' = findDirInfo dirId s"
    using findDirInfo_from_update [OF r(1) _ m, of 0] r(2) assms(1)
    by (simp add: findDirInfo_def s')
  have e: "existingDir dirId s' = existingDir dirId s"
  proof (cases "findDirInfo dirId s")
    case None
    with f show ?thesis by (simp add: existingDir_def)
  next
    case (Some row)
    from findDirInfo_Some [OF Some] r(2) assms(1) have "row \<noteq> r" by auto
    with Some f show ?thesis by (simp add: existingDir_def s')
  qed
  from nd' f e show ?thesis by simp
qed

lemma readDirs_loop_prefix:
  "readDirs_loop dirs nd s = (nd', s') \<Longrightarrow> \<exists>added. nd' = nd @ added"
proof (induction dirs arbitrary: nd s)
  case Nil
  then show ?case by simp
next
  case (Cons dirVal dirs)
  show ?case
  proof (cases "addDirInfo nd (toString (jvalue (toObject dirVal) ''id'')) s")
    case None
    with Cons show ?thesis by (simp add: Let_def)
  next
    case (Some p)
    obtain nd1 s1 where p: "p = (nd1, s1)" by (cases p)
    from Some p obtain d where nd1: "nd1 = nd @ [d]"
      by (auto simp: addDirInfo_def split: if_splits option.splits)
    from Cons.prems Some p
    have "readDirs_loop dirs (modifyBack (readDirs_item (toObject dirVal)) nd1) s1 = (nd', s')"
      by (simp add: Let_def)
    from Cons.IH [OF this] obtain added where
      "nd' = modifyBack (readDirs_item (toObject dirVal)) nd1 @ added" by blast
    then show ?thesis by (simp add: nd1 modifyBack_def)
  qed
qed

lemma readDirs_loop_pre:
  assumes "dirId \<noteq> []" and "dirId \<notin> dirIdOf ` set pre"
    and "readDirs_loop pre nd s = (nd', s')"
  shows "length nd' = length nd + length (filter (\<lambda>v. dirIdOf v \<noteq> []) pre) \<and>
         existingDir dirId s' = existingDir dirId s"
  using assms(2,3)
proof (induction pre arbitrary: nd s)
  case Nil
  then show ?case by simp
next
  case (Cons dirVal pre)
  have ne: "dirIdOf dirVal \<noteq> dirId" and rest: "dirId \<notin> dirIdOf ` set pre"
    using Cons.prems(1) by auto
  show ?case
  proof (cases "addDirInfo nd (dirIdOf dirVal) s")
    case None
    then have "dirIdOf dirVal = []" by (auto simp: addDirInfo_def split: if_splits option.splits)
    with Cons.prems(2) None Cons.IH [OF rest, of nd s] show ?thesis
      by (simp add: Let_def dirIdOf_def)
  next
    case (Some p)
    obtain nd1 s1 where p: "p = (nd1, s1)" by (cases p)
    from Some have nonempty: "dirIdOf dirVal \<noteq> []" by (auto simp: addDirInfo_def split: if_splits)
    from addDirInfo_other [OF ne assms(1) Some [unfolded p]] obtain d where
      nd1: "nd1 = nd @ [d]" and e: "existingDir dirId s1 = existingDir dirId s" by blast
    from Cons.prems(2) Some p
    have "readDirs_loop pre (modifyBack (readDirs_item (toObject dirVal)) nd1) s1 = (nd', s')"
      by (simp add: Let_def dirIdOf_def)
    from Cons.IH [OF rest this] show ?thesis
      using nonempty by (simp add: nd1 modifyBack_def e)
  qed
qed

lemma readDirs_loop_append:
  "readDirs_loop (xs @ ys) nd s = (case readDirs_loop xs nd s of (nd1, s1) \<Rightarrow> readDirs_loop ys nd1 s1)"
  by (induction xs arbitrary: nd s) (simp_all add: Let_def split: option.split)

lemma addDirInfo_existing:
  "dirId \<noteq> [] \<Longrightarrow> \<exists>s'. addDirInfo nd dirId s = Some (nd @ [existingDir dirId s], s')"
  by (simp add: addDirInfo_def existingDir_def split: option.split)

lemma readDirs_entry:
  assumes "dirIdOf dirVal \<noteq> []" and "dirIdOf dirVal \<notin> dirIdOf ` set pre"
  shows "length (filter (\<lambda>v. dirIdOf v \<noteq> []) pre) < length (m_dirs (readDirs (pre @ dirVal # post) s)) \<and>
         m_dirs (readDirs (pre @ dirVal # post) s) ! length (filter (\<lambda>v. dirIdOf v \<noteq> []) pre) =
           readDirs_item (toObject dirVal) (existingDir (dirIdOf dirVal) s)"
proof -
  let ?k = "length (filter (\<lambda>v. dirIdOf v \<noteq> []) pre)"
  obtain nd1 s1 where pre: "readDirs_loop pre [] s = (nd1, s1)" by (cases "readDirs_loop pre [] s")
  from readDirs_loop_pre [OF assms pre]
  have k: "length nd1 = ?k" and e: "existingDir (dirIdOf dirVal) s1 = existingDir (dirIdOf dirVal) s"
    by simp_all
  from addDirInfo_existing [OF assms(1), of nd1 s1] obtain s2 where
    add: "addDirInfo nd1 (dirIdOf dirVal) s1 = Some (nd1 @ [existingDir (dirIdOf dirVal) s1], s2)"
    by blast
  let ?item = "readDirs_item (toObject dirVal) (existingDir (dirIdOf dirVal) s)"
  obtain nd' s' where post: "readDirs_loop post (nd1 @ [?item]) s2 = (nd', s')"
    by (cases "readDirs_loop post (nd1 @ [?item]) s2")
  from readDirs_loop_prefix [OF post] obtain added where nd': "nd' = (nd1 @ [?item]) @ added"
    by blast
  have "readDirs_loop (pre @ dirVal # post) [] s = (nd', s')"
    using add post by (simp add: readDirs_loop_append pre Let_def dirIdOf_def [symmetric] e modifyBack_def)
  then have "m_dirs (readDirs (pre @ dirVal # post) s) = nd'"
    by (simp add: readDirs_def emit_def)
  then show ?thesis by (simp add: nd' k [symmetric] nth_append)
qed

lemma findDevInfo_from_update:
  "r < length ds \<Longrightarrow> dev_id (ds ! r) \<noteq> devId \<Longrightarrow> dev_id d' \<noteq> devId \<Longrightarrow>
     findDevInfo_from devId (ds[r := d']) row = findDevInfo_from devId ds row"
proof (induction ds arbitrary: r row)
  case Nil
  then show ?case by simp
next
  case (Cons d ds)
  show ?case
  proof (cases r)
    case 0
    with Cons.prems show ?thesis by simp
  next
    case (Suc r')
    with Cons.prems Cons.IH [of r' "Suc row"] show ?thesis by simp
  qed
qed

lemma addDevInfo_other:
  assumes "x \<noteq> devId" and "devId \<noteq> []" and "addDevInfo nd x s = Some (nd', s')"
  shows "(\<exists>d. nd' = nd @ [d]) \<and> findDevInfo devId s' = findDevInfo devId s \<and>
         existingDev devId s' = existingDev devId s \<and> m_myId s' = m_myId s"
proof (cases "findDevInfo x s")
  case None
  with assms show ?thesis by (auto simp: addDevInfo_def split: if_splits)
next
  case (Some r)
  from findDevInfo_Some [OF Some] have r: "r < length (m_devs s)" "dev_id (m_devs s ! r) = x"
    by simp_all
  from assms(3) Some have nd': "nd' = nd @ [m_devs s ! r]"
    and s': "s' = s\<lparr>m_devs := (m_devs s)[r := movedFromDev (m_devs s ! r)]\<rparr>"
    by (auto simp: addDevInfo_def split: if_splits)
  have m: "dev_id (movedFromDev (m_devs s ! r)) \<noteq> devId"
    using assms(2) by (simp add: movedFromDev_def)
  have f: "findDevInfo devId s' = findDevInfo devId s"
    using findDevInfo_from_update [OF r(1) _ m, of 0] r(2) assms(1)
    by (simp add: findDevInfo_def s')
  have e: "existingDev devId s' = existingDev devId s"
  proof (cases "findDevInfo devId s")
    case None
    with f show ?thesis by (simp add: existingDev_def)
  next
    case (Some row)
    from findDevInfo_Some [OF Some] r(2) assms(1) have "row \<noteq> r" by auto
    with Some f show ?thesis by (simp add: existingDev_def s')
  qed
  from nd' f e show ?thesis by (simp add: s')
qed

lemma readDevs_loop_prefix:
  "readDevs_loop devs nd s = (nd', s') \<Longrightarrow> \<exists>added. nd' = nd @ added"
proof (induction devs arbitrary: nd s)
  case Nil
  then show ?case by simp
next
  case (Cons devVal devs)
  show ?case
  proof (cases "addDevInfo nd (toString (jvalue (toObject devVal) ''deviceID'')) s")
    case None
    with Cons show ?thesis by (simp add: Let_def)
  next
    case (Some p)
    obtain nd1 s1 where p: "p = (nd1, s1)" by (cases p)
    from Some p obtain d where nd1: "nd1 = nd @ [d]"
      by (auto simp: addDevInfo_def split: if_splits option.splits)
    from Cons.prems Some p
    have "readDevs_loop devs (modifyBack (readDevs_item (m_myId s1) (toObject devVal)) nd1) s1 = (nd', s')"
      by (simp add: Let_def)
    from Cons.IH [OF this] obtain added where
      "nd' = modifyBack (readDevs_item (m_myId s1) (toObject devVal)) nd1 @ added" by blast
    then show ?thesis by (simp add: nd1 modifyBack_def)
  qed
qed

lemma readDevs_loop_pre:
  assumes "devId \<noteq> []" and "devId \<notin> devIdOf ` set pre"
    and "readDevs_loop pre nd s = (nd', s')"
  shows "length nd' = length nd + length (filter (\<lambda>v. devIdOf v \<noteq> []) pre) \<and>
         existingDev devId s' = existingDev devId s \<and> m_myId s' = m_myId s"
  using assms(2,3)
proof (induction pre arbitrary: nd s)
  case Nil
  then show ?case by simp
next
  case (Cons devVal pre)
  have ne: "devIdOf devVal \<noteq> devId" and rest: "devId \<notin> devIdOf ` set pre"
    using Cons.prems(1) by auto
  show ?case
  proof (cases "addDevInfo nd (devIdOf devVal) s")
    case None
    then have "devIdOf devVal = []" by (auto simp: addDevInfo_def split: if_splits option.splits)
    with Cons.prems(2) None Cons.IH [OF rest, of nd s] show ?thesis
      by (simp add: Let_def devIdOf_def)
  next
    case (Some p)
    obtain nd1 s1 where p: "p = (nd1, s1)" by (cases p)
    from Some have nonempty: "devIdOf devVal \<noteq> []" by (auto simp: addDevInfo_def split: if_splits)
    from addDevInfo_other [OF ne assms(1) Some [unfolded p]] obtain d where
      nd1: "nd1 = nd @ [d]" and e: "existingDev devId s1 = existingDev devId s"
      and my: "m_myId s1 = m_myId s" by blast
    from Cons.prems(2) Some p
    have "readDevs_loop pre (modifyBack (readDevs_item (m_myId s1) (toObject devVal)) nd1) s1 = (nd', s')"
      by (simp add: Let_def devIdOf_def)
    from Cons.IH [OF rest this] show ?thesis
      using nonempty by (simp add: nd1 modifyBack_def e my)
  qed
qed

lemma readDevs_loop_append:
  "readDevs_loop (xs @ ys) nd s = (case readDevs_loop xs nd s of (nd1, s1) \<Rightarrow> readDevs_loop ys nd1 s1)"
  by (induction xs arbitrary: nd s) (simp_all add: Let_def split: option.split)

lemma addDevInfo_existing:
  "devId \<noteq> [] \<Longrightarrow>
     \<exists>s'. addDevInfo nd devId s = Some (nd @ [existingDev devId s], s') \<and> m_myId s' = m_myId s"
  by (simp add: addDevInfo_def existingDev_def split: option.split)

lemma readDevs_entry:
  assumes "devIdOf devVal \<noteq> []" and "devIdOf devVal \<notin> devIdOf ` set pre"
  shows "length (filter (\<lambda>v. devIdOf v \<noteq> []) pre) < length (m_devs (readDevs (pre @ devVal # post) s)) \<and>
         m_devs (readDevs (pre @ devVal # post) s) ! length (filter (\<lambda>v. devIdOf v \<noteq> []) pre) =
           readDevs_item (m_myId s) (toObject devVal) (existingDev (devIdOf devVal) s)"
proof -
  let ?k = "length (filter (\<lambda>v. devIdOf v \<noteq> []) pre)"
  obtain nd1 s1 where pre: "readDevs_loop pre [] s = (nd1, s1)" by (cases "readDevs_loop pre [] s")
  from readDevs_loop_pre [OF assms pre]
  have k: "length nd1 = ?k" and e: "existingDev (devIdOf devVal) s1 = existingDev (devIdOf devVal) s"
    and my: "m_myId s1 = m_myId s"
    by simp_all
  from addDevInfo_existing [OF assms(1), of nd1 s1] obtain s2 where
    add: "addDevInfo nd1 (devIdOf devVal) s1 = Some (nd1 @ [existingDev (devIdOf devVal) s1], s2)"
    and my2: "m_myId s2 = m_myId s1"
    by blast
  let ?item = "readDevs_item (m_myId s) (toObject devVal) (existingDev (devIdOf devVal) s)"
  obtain nd' s' where post: "readDevs_loop post (nd1 @ [?item]) s2 = (nd', s')"
    by (cases "readDevs_loop post (nd1 @ [?item]) s2")
  from readDevs_loop_prefix [OF post] obtain added where nd': "nd' = (nd1 @ [?item]) @ added"
    by blast
  have "readDevs_loop (pre @ devVal # post) [] s = (nd', s')"
    using add post
    by (simp add: readDevs_loop_append pre Let_def devIdOf_def [symmetric] e my my2 modifyBack_def)
  then have "m_devs (readDevs (pre @ devVal # post) s) = nd'"
    by (simp add: readDevs_def emit_def)
  then show ?thesis by (simp add: nd' k [symmetric] nth_append)
qed



lemma existingDir_id: "dir_id (existingDir dirId s) = dirId"
  using findDirInfo_Some [of dirId s]
  by (auto simp: existingDir_def newSyncthingDir_def split: option.split)

lemma existingDev_id: "dev_id (existingDev devId s) = devId"
  using findDevInfo_Some [of devId s]
  by (auto simp: existingDev_def newSyncthingDev_def split: option.split)

text \<open>
  Claim C3, amended.  Let a configuration be parsed by \<open>readDirs\<close>, and take an entry of the
  payload with a non-empty id that no earlier entry of the payload carries.  Its record in the
  replacement collection (at the position of the entry among the entries with an id) is the
  existing directory of that id, or a freshly created one if there is none, with the label,
  path, device-sharing set and flags of the payload; status, error lists and counters are those
  of the existing directory.  The same holds for \<open>readDevs\<close> and the paused flag, traffic
  counters, connection data and last-seen time of a device, except that the status of every
  device is set anew: OwnDevice if its id is the own id, Unknown otherwise.
\<close>

theorem config_reconciliation:
  assumes "dirIdOf dirVal \<noteq> []" and "dirIdOf dirVal \<notin> dirIdOf ` set pre"
    and "devIdOf devVal \<noteq> []" and "devIdOf devVal \<notin> devIdOf ` set pre'"
  shows
    "(let old = existingDir (dirIdOf dirVal) s;
          dirObj = toObject dirVal;
          dirs = m_dirs (readDirs (pre @ dirVal # post) s);
          k = length (filter (\<lambda>v. dirIdOf v \<noteq> []) pre);
          r = dirs ! k
      in k < length dirs \<and> dir_id r = dirIdOf dirVal \<and>
         (findDirInfo (dirIdOf dirVal) s = None \<longrightarrow> old = newSyncthingDir (dirIdOf dirVal)) \<and>
         (\<forall>row. findDirInfo (dirIdOf dirVal) s = Some row \<longrightarrow> old = m_dirs s ! row) \<and>
         r = readDirs_item dirObj old \<and>
         dir_status r = dir_status old \<and> dir_errors r = dir_errors old \<and>
         dir_previousErrors r = dir_previousErrors old \<and>
         dir_globalBytes r = dir_globalBytes old \<and> dir_globalDeleted r = dir_globalDeleted old \<and>
         dir_globalFiles r = dir_globalFiles old \<and> dir_localBytes r = dir_localBytes old \<and>
         dir_localDeleted r = dir_localDeleted old \<and> dir_localFiles r = dir_localFiles old \<and>
         dir_neededByted r = dir_neededByted old \<and> dir_neededFiles r = dir_neededFiles old \<and>
         dir_label r = toString (jvalue dirObj ''label'') \<and>
         dir_path r = toString (jvalue dirObj ''path'') \<and>
         dir_devices r =
           filter (\<lambda>devId. devId \<noteq> [])
             (map (\<lambda>dev. toString (jvalue (toObject dev) ''deviceID'')) (toArray (jvalue dirObj ''devices''))) \<and>
         dir_readOnly r = toBool False (jvalue dirObj ''readOnly'') \<and>
         dir_rescanInterval r = toInt (- 1) (jvalue dirObj ''rescanIntervalS'') \<and>
         dir_ignorePermissions r = toBool False (jvalue dirObj ''ignorePerms'') \<and>
         dir_autoNormalize r = toBool False (jvalue dirObj ''autoNormalize'') \<and>
         dir_minDiskFreePercentage r = toInt (- 1) (jvalue dirObj ''minDiskFreePct'')) \<and>
     (let old = existingDev (devIdOf devVal) s;
          devObj = toObject devVal;
          devs = m_devs (readDevs (pre' @ devVal # post') s);
          k = length (filter (\<lambda>v. devIdOf v \<noteq> []) pre');
          r = devs ! k
      in k < length devs \<and> dev_id r = devIdOf devVal \<and>
         (findDevInfo (devIdOf devVal) s = None \<longrightarrow> old = newSyncthingDev (devIdOf devVal)) \<and>
         (\<forall>row. findDevInfo (devIdOf devVal) s = Some row \<longrightarrow> old = m_devs s ! row) \<and>
         r = readDevs_item (m_myId s) devObj old \<and>
         dev_status r = (if devIdOf devVal = m_myId s then DevStatus_OwnDevice else DevStatus_Unknown) \<and>
         dev_paused r = dev_paused old \<and>
         dev_totalIncomingTraffic r = dev_totalIncomingTraffic old \<and>
         dev_totalOutgoingTraffic r = dev_totalOutgoingTraffic old \<and>
         dev_connectionAddress r = dev_connectionAddress old \<and>
         dev_connectionType r = dev_connectionType old \<and>
         dev_clientVersion r = dev_clientVersion old \<and>
         dev_lastSeen r = dev_lastSeen old \<and>
         dev_name r = toString (jvalue devObj ''name'') \<and>
         dev_addresses r = map toString (toArray (jvalue devObj ''addresses'')) \<and>
         dev_compression r = toString (jvalue devObj ''compression'') \<and>
         dev_certName r = toString (jvalue devObj ''certName'') \<and>
         dev_introducer r = toBool False (jvalue devObj ''introducer''))"
proof -
  note d = readDirs_entry [OF assms(1,2), of post s]
  note e = readDevs_entry [OF assms(3,4), of post' s]
  have old_d: "(findDirInfo (dirIdOf dirVal) s = None \<longrightarrow>
                  existingDir (dirIdOf dirVal) s = newSyncthingDir (dirIdOf dirVal)) \<and>
               (\<forall>row. findDirInfo (dirIdOf dirVal) s = Some row \<longrightarrow>
                  existingDir (dirIdOf dirVal) s = m_dirs s ! row)"
    by (simp add: existingDir_def)
  have old_e: "(findDevInfo (devIdOf devVal) s = None \<longrightarrow>
                  existingDev (devIdOf devVal) s = newSyncthingDev (devIdOf devVal)) \<and>
               (\<forall>row. findDevInfo (devIdOf devVal) s = Some row \<longrightarrow>
                  existingDev (devIdOf devVal) s = m_devs s ! row)"
    by (simp add: existingDev_def)
  show ?thesis
    unfolding Let_def using d e old_d old_e
    by (simp add: readDirs_item_def readDevs_item_def existingDir_id existingDev_id)
qed


theorem config_reconciliation_witness:
  "dirIdOf folderB = ''b'' \<and> devIdOf deviceDev2 = ''dev2'' \<and>
   findDirInfo ''b'' sampleConnection = Some 1 \<and> findDevInfo ''dev2'' sampleConnection = Some 1 \<and>
   dir_status (m_dirs (readDirs [folderB] sampleConnection) ! 0) = DirStatus_OutOfSync \<and>
   dir_errors (m_dirs (readDirs [folderB] sampleConnection) ! 0) =
     [\<lparr>err_message = ''disk full'', err_path = ''img.png''\<rparr>] \<and>
   dir_globalFiles (m_dirs (readDirs [folderB] sampleConnection) ! 0) = 12 \<and>
   dir_label (m_dirs (readDirs [folderB] sampleConnection) ! 0) = ''Photos'' \<and>
   dir_devices (m_dirs (readDirs [folderB] sampleConnection) ! 0) = [''dev1'', ''dev2''] \<and>
   dir_readOnly (m_dirs (readDirs [folderB] sampleConnection) ! 0) \<and>
   dev_paused (m_devs (readDevs [deviceDev2] sampleConnection) ! 0) \<and>
   dev_status (m_devs (readDevs [deviceDev2] sampleConnection) ! 0) = DevStatus_Unknown \<and>
   dev_name (m_devs (readDevs [deviceDev2] sampleConnection) ! 0) = ''laptop''"
proof -
  have i: "dirIdOf folderB = ''b''" "devIdOf deviceDev2 = ''dev2''"
    by (simp_all add: dirIdOf_def devIdOf_def folderB_def deviceDev2_def toObject_def jvalue_def toString_def)
  have h1: "dirIdOf folderB \<noteq> []" and h2: "dirIdOf folderB \<notin> dirIdOf ` set []"
    and h3: "devIdOf deviceDev2 \<noteq> []" and h4: "devIdOf deviceDev2 \<notin> devIdOf ` set []"
    by (simp_all add: i)
  have f: "findDirInfo ''b'' sampleConnection = Some 1" "findDevInfo ''dev2'' sampleConnection = Some 1"
    by (simp_all add: findDirInfo_def findDevInfo_def sampleConnection_def SyncthingConnection_init_def
        newSyncthingDir_def newSyncthingDev_def)
  have o: "existingDir ''b'' sampleConnection =
        (newSyncthingDir ''b'')\<lparr>dir_status := DirStatus_OutOfSync, dir_lastFileTime := 50,
          dir_errors := [\<lparr>err_message = ''disk full'', err_path = ''img.png''\<rparr>],
          dir_globalFiles := 12\<rparr>"
    "existingDev ''dev2'' sampleConnection =
        (newSyncthingDev ''dev2'')\<lparr>dev_status := DevStatus_Idle, dev_paused := True\<rparr>"
    by (simp_all add: existingDir_def existingDev_def f)
       (simp_all add: sampleConnection_def SyncthingConnection_init_def)
  have m: "m_myId sampleConnection = ''dev1''"
    by (simp add: sampleConnection_def SyncthingConnection_init_def)
  have p: "toString (jvalue (toObject folderB) ''label'') = ''Photos''"
    "filter (\<lambda>devId. devId \<noteq> [])
       (map (\<lambda>dev. toString (jvalue (toObject dev) ''deviceID''))
          (toArray (jvalue (toObject folderB) ''devices''))) = [''dev1'', ''dev2'']"
    "toBool False (jvalue (toObject folderB) ''readOnly'')"
    "toString (jvalue (toObject deviceDev2) ''name'') = ''laptop''"
    by (simp_all add: folderB_def deviceDev2_def toObject_def jvalue_def toString_def toArray_def toBool_def)
  note t = config_reconciliation [where pre = "[]" and post = "[]" and pre' = "[]" and post' = "[]"
        and s = sampleConnection, OF h1 h2 h3 h4]
  from t have r: "m_dirs (readDirs [folderB] sampleConnection) ! 0 =
      readDirs_item (toObject folderB) (existingDir ''b'' sampleConnection)"
    "m_devs (readDevs [deviceDev2] sampleConnection) ! 0 =
      readDevs_item ''dev1'' (toObject deviceDev2) (existingDev ''dev2'' sampleConnection)"
    by (simp_all add: Let_def i m)
  show ?thesis
    by (simp add: r o i f p readDirs_item_def readDevs_item_def newSyncthingDev_def)
qed

lemma reconcile_sample:
  "map (\<lambda>d. (dev_id d, dev_status d)) (m_devs (readDevs [deviceDev2] sampleConnection)) =
     [(''dev2'', DevStatus_Unknown)]"
  "map (\<lambda>d. (dir_id d, dir_status d, dir_errors d)) (m_dirs (readDirs [folderB, folderB] sampleConnection)) =
     [(''b'', DirStatus_OutOfSync, [\<lparr>err_message = ''disk full'', err_path = ''img.png''\<rparr>]),
      (''b'', DirStatus_Idle, [])]"
  by (simp_all add: readDevs_def readDirs_def addDevInfo_def addDirInfo_def findDevInfo_def findDirInfo_def
      readDevs_item_def readDirs_item_def modifyBack_def movedFromDir_def movedFromDev_def
      deviceDev2_def folderB_def toObject_def jvalue_def toString_def toArray_def toBool_def toInt_def
      sampleConnection_def SyncthingConnection_init_def newSyncthingDir_def newSyncthingDev_def
      emit_def Let_def)

text \<open>
  Claim C3 says that the record of every entry of the payload whose id is the id of an existing
  entity keeps the status, the error list and the counters of that entity.  Device \<open>dev2\<close>
  of the sample is Idle; after a configuration that lists it, it is Unknown.  Folder \<open>b\<close>
  is out of sync and has an error; a configuration that lists it twice yields a second record
  that is a new one, idle and without errors.
\<close>

theorem config_reconciliation_resets:
  "dev_id (m_devs sampleConnection ! 1) = ''dev2'' \<and>
   dev_status (m_devs sampleConnection ! 1) = DevStatus_Idle \<and>
   map (\<lambda>d. (dev_id d, dev_status d)) (m_devs (readDevs [deviceDev2] sampleConnection)) =
     [(''dev2'', DevStatus_Unknown)] \<and>
   dir_id (m_dirs sampleConnection ! 1) = ''b'' \<and>
   dir_status (m_dirs sampleConnection ! 1) = DirStatus_OutOfSync \<and>
   map (\<lambda>d. (dir_id d, dir_status d, dir_errors d)) (m_dirs (readDirs [folderB, folderB] sampleConnection)) =
     [(''b'', DirStatus_OutOfSync, [\<lparr>err_message = ''disk full'', err_path = ''img.png''\<rparr>]),
      (''b'', DirStatus_Idle, [])]"
  using reconcile_sample
  by (simp add: sampleConnection_def SyncthingConnection_init_def newSyncthingDir_def newSyncthingDev_def)

end
